theory Spec2Isabelle
  imports Main
begin

section \<open>JavaScript values\<close>

text \<open>
  The plugin is configured with a JavaScript options object. The values modelled here are
  the JSON-like ones: \<open>undefined\<close>, \<open>null\<close>, booleans, integers, strings, arrays and plain
  objects. An object is the list of its own enumerable properties in insertion order; its keys
  are pairwise distinct (\<open>wf\<close> below). \<open>Builtin k\<close> is the member that every object inherits
  from \<open>Object.prototype\<close> under the key \<open>k\<close>: a function of the engine, or the prototype
  itself for \<open>__proto__\<close>.
\<close>

datatype jsval =
    Undefined
  | Null
  | Bool bool
  | Num int
  | Str string
  | Arr "jsval list"
  | Obj "(string \<times> jsval) list"
  | Builtin string

text \<open>
  A thrown value: a TypeError of the engine, or an error with the given message, which may be
  empty (\<open>new Error()\<close>; a promise rejected with \<open>undefined\<close> or with an empty string counts as
  one).
\<close>

datatype js_error =
    TypeError
  | Failure string

fun hasMessage :: "js_error \<Rightarrow> bool" where
  "hasMessage TypeError = True"
| "hasMessage (Failure m) = (m \<noteq> [])"

text \<open>Truthiness, as tested by \<open>if (v)\<close>, \<open>v || w\<close>, \<open>v && w\<close> and \<open>Boolean(v)\<close>.\<close>

fun truthy :: "jsval \<Rightarrow> bool" where
  "truthy Undefined = False"
| "truthy Null = False"
| "truthy (Bool b) = b"
| "truthy (Num n) = (n \<noteq> 0)"
| "truthy (Str s) = (s \<noteq> [])"
| "truthy (Arr _) = True"
| "truthy (Obj _) = True"
| "truthy (Builtin _) = True"

text \<open>
  The names of the members of \<open>Object.prototype\<close>, and what an object that has no own
  property \<open>k\<close> yields for \<open>v[k]\<close>: the inherited member, or \<open>undefined\<close>.
\<close>

definition objectPrototype :: "string list" where
  "objectPrototype =
     [''constructor'', ''hasOwnProperty'', ''isPrototypeOf'', ''propertyIsEnumerable'',
      ''toLocaleString'', ''toString'', ''valueOf'', ''__proto__'', ''__defineGetter__'',
      ''__defineSetter__'', ''__lookupGetter__'', ''__lookupSetter__'']"

definition inherited :: "string \<Rightarrow> jsval" where
  "inherited k = (if k \<in> set objectPrototype then Builtin k else Undefined)"

text \<open>
  The property read \<open>v[k]\<close>, as in \<open>errorLevel[item.rule]\<close>. Reading a property of
  \<open>undefined\<close> or \<open>null\<close> throws a TypeError. An object yields its own property, and
  without one what it inherits from \<open>Object.prototype\<close>. Every other value inherits from
  \<open>Object.prototype\<close> as well; the members of its own (the indices and the length of a string
  or an array, the methods of \<open>String.prototype\<close> and the like) are not modelled:
  \<open>errorLevel\<close> is a mapping in the data model, and of an entry only \<open>severity\<close> is read,
  which no builtin has.
\<close>

fun getProp :: "jsval \<Rightarrow> string \<Rightarrow> js_error + jsval" where
  "getProp Undefined k = Inl TypeError"
| "getProp Null k = Inl TypeError"
| "getProp (Obj props) k = Inr (case map_of props k of Some v \<Rightarrow> v | None \<Rightarrow> inherited k)"
| "getProp _ k = Inr (inherited k)"

text \<open>
  A property of the plugin options under one of the names the plugin reads (\<open>debug\<close>,
  \<open>failAfterError\<close>, \<open>errorLevel\<close>, \<open>configFile\<close>, \<open>reporters\<close>), none of which is inherited:
  the own property, or \<open>undefined\<close>.
\<close>

definition field :: "(string \<times> jsval) list \<Rightarrow> string \<Rightarrow> jsval" where
  "field props k = (case map_of props k of Some v \<Rightarrow> v | None \<Rightarrow> Undefined)"

text \<open>\<open>String.prototype.toLowerCase\<close> on the ASCII letters.\<close>

definition lowerChar :: "char \<Rightarrow> char" where
  "lowerChar c =
     (case map_of (zip ''ABCDEFGHIJKLMNOPQRSTUVWXYZ'' ''abcdefghijklmnopqrstuvwxyz'') c of
        Some l \<Rightarrow> l
      | None \<Rightarrow> c)"

definition toLowerCase :: "string \<Rightarrow> string" where
  "toLowerCase s = map lowerChar s"

section \<open>Lint records and results\<close>

text \<open>An issue record as the lint engine returns it.\<close>

record issue =
  line :: int
  column :: int
  rule :: string
  type :: string
  message :: string
  code :: jsval

text \<open>
  A normalized warning. Its fields are those of the object literal in \<open>formatResult\<close>; the
  field \<open>text\<close> is written \<open>text'\<close>. The severity is a JavaScript value, since an override
  is whatever the caller wrote in \<open>errorLevel\<close>.
\<close>

record warning =
  line :: int
  column :: int
  rule :: string
  severity :: jsval
  text' :: string
  code :: jsval

record file_result =
  source :: string
  errored :: bool
  warnings :: "warning list"
  deprecations :: "jsval list"
  invalidOptionWarnings :: "jsval list"
  ignored :: bool

record envelope =
  results :: "file_result list"

section \<open>The result normalizer\<close>

text \<open>
  Lines 77 to 80 of \<open>formatResult\<close>: the severity starts as the lower-cased type and is
  replaced when \<open>errorLevel[item.rule]\<close> is truthy, by that entry's \<open>severity\<close> if it is truthy
  and by \<open>'warning'\<close> otherwise. The entry may be inherited: for a rule named \<open>constructor\<close>
  it is the function \<open>Object\<close>.
\<close>

definition severityOf :: "jsval \<Rightarrow> issue \<Rightarrow> js_error + jsval" where
  "severityOf errorLevel item =
     (let severity0 = Str (toLowerCase (type item)) in
      case getProp errorLevel (issue.rule item) of
        Inl e \<Rightarrow> Inl e
      | Inr entry \<Rightarrow>
          if truthy entry then
            (case getProp entry ''severity'' of
               Inl e \<Rightarrow> Inl e
             | Inr s \<Rightarrow> Inr (if truthy s then s else Str ''warning''))
          else Inr severity0)"

text \<open>
  The callback of \<open>result.map\<close>, run over the records from left to right. The flag \<open>errored\<close>
  is the variable of the enclosing function, which the callback sets; it is threaded through.
\<close>

fun formatItems :: "jsval \<Rightarrow> issue list \<Rightarrow> bool \<Rightarrow> js_error + (warning list \<times> bool)" where
  "formatItems errorLevel [] errored0 = Inr ([], errored0)"
| "formatItems errorLevel (item # rest) errored0 =
     (let errored1 = (if type item = ''ERROR'' then True else errored0) in
      case severityOf errorLevel item of
        Inl e \<Rightarrow> Inl e
      | Inr sev \<Rightarrow>
          (case formatItems errorLevel rest errored1 of
             Inl e \<Rightarrow> Inl e
           | Inr (ws, errored2) \<Rightarrow>
               Inr (\<lparr> line = issue.line item, column = issue.column item,
                      rule = issue.rule item, severity = sev,
                      text' = message item, code = issue.code item \<rparr> # ws, errored2)))"

definition formatResult :: "jsval \<Rightarrow> issue list \<Rightarrow> string \<Rightarrow> js_error + envelope" where
  "formatResult errorLevel result src =
     (case formatItems errorLevel result False of
        Inl e \<Rightarrow> Inl e
      | Inr (ws, errored1) \<Rightarrow>
          Inr \<lparr> results = [\<lparr> source = src, errored = errored1, warnings = ws,
                              deprecations = [], invalidOptionWarnings = [],
                              ignored = False \<rparr>] \<rparr>)"

section \<open>Files, errors and the events of the stream\<close>

text \<open>
  A file of the pipeline (a Vinyl object) has a path and contents that are absent (\<open>isNull\<close>), a stream
  (\<open>isStream\<close>) or a buffer, whose \<open>toString\<close> is the text that is linted.
\<close>

datatype file_contents =
    NoContents
  | StreamContents
  | BufferContents string

record vinyl =
  path :: string
  contents :: file_contents

definition isNull :: "vinyl \<Rightarrow> bool" where
  "isNull f = (contents f = NoContents)"

definition isStream :: "vinyl \<Rightarrow> bool" where
  "isStream f = (contents f = StreamContents)"

definition isBuffer :: "vinyl \<Rightarrow> bool" where
  "isBuffer f = (\<not> isNull f \<and> \<not> isStream f)"

text \<open>
  \<open>new PluginError(plugin, message)\<close> and \<open>new PluginError(plugin, error, {showStack: b})\<close>:
  the second argument is a message or a caught error, the third is absent or carries the flag.
\<close>

datatype payload =
    Text string
  | Wrapped js_error

datatype plugin_error =
    PluginError string payload "bool option"

text \<open>
  The constructor itself, of the package \<open>plugin-error\<close>: it throws when the plugin name is
  empty and when the message, or the message of the caught error, is empty. Where the plugin
  passes \<open>pluginName\<close> and a message written in the source, it returns.
\<close>

definition newPluginError :: "string \<Rightarrow> payload \<Rightarrow> bool option \<Rightarrow> js_error + plugin_error" where
  "newPluginError plugin p opts =
     (if plugin = [] then Inl (Failure ''Missing plugin name'')
      else if (case p of Text m \<Rightarrow> m = [] | Wrapped e \<Rightarrow> \<not> hasMessage e) then
        Inl (Failure ''Missing error message'')
      else Inr (PluginError plugin p opts))"

text \<open>
  What the stage does that can be seen from outside, in the order it happens:
  \<open>this.emit('error', e)\<close>, the completion callback of a file (\<open>done(null, file)\<close> hands the
  file downstream, \<open>done()\<close> hands nothing), the call of the reporter with a given index on the
  aggregated results, and the completion callback of the stream. The error channel has a
  listener, so \<open>emit\<close> returns.
\<close>

datatype event =
    Emit plugin_error
  | FileDone "vinyl option"
  | Report nat "file_result list"
  | StreamDone

definition pluginName :: string where
  "pluginName = ''gulp-htmlcs''"

section \<open>The collaborators\<close>

text \<open>
  A reporter is called with the aggregated results. It throws, or it returns a promise that is
  fulfilled or is rejected; a rejection carries the time at which it happens, since
  \<open>Promise.all\<close> is rejected by the first rejection in time. Every promise of a reporter
  is settled at some time: one that stays pending for ever is not modelled.
\<close>

datatype outcome =
    Resolves
  | Rejects nat js_error
  | Throws js_error

type_synonym reporter = "file_result list \<Rightarrow> outcome"

text \<open>
  The file system, the parser of rule configurations, the lint engine (called with the code
  alone or with the code and a parsed configuration; it returns the list of issue records
  and does not throw) and the reporter factory of \<open>./reporter-factory\<close>, which is not among the sources and is
  taken as a parameter: it makes a reporter from a reporter configuration and the plugin
  options.
\<close>

record 'cfg externals =
  readFileSync :: "jsval \<Rightarrow> js_error + string"
  parse :: "string \<Rightarrow> js_error + 'cfg"
  hint :: "string \<Rightarrow> 'cfg option \<Rightarrow> issue list"
  reporterFactory :: "jsval \<Rightarrow> (string \<times> jsval) list \<Rightarrow> reporter"

definition readFile :: "'cfg externals \<Rightarrow> jsval \<Rightarrow> js_error + string" where
  "readFile X filePath = readFileSync X filePath"

section \<open>The file processor\<close>

text \<open>
  Lines 132 to 144 of \<open>onFile\<close>: the lint function is the engine's own, or the engine bound to
  the configuration read from \<open>configFile\<close>; when reading or parsing throws, the error is
  emitted and the engine's own function stays. The \<open>PluginError\<close> is made inside the
  \<open>catch\<close> block: when its constructor throws, the exception leaves \<open>onFile\<close>.
\<close>

definition configError ::
  "'cfg externals \<Rightarrow> (string \<times> jsval) list \<Rightarrow> js_error
     \<Rightarrow> js_error + (event list \<times> (string \<Rightarrow> issue list))" where
  "configError X pluginOptions e =
     (case newPluginError pluginName (Wrapped e)
             (Some (truthy (field pluginOptions ''debug''))) of
        Inl x \<Rightarrow> Inl x
      | Inr pe \<Rightarrow> Inr ([Emit pe], \<lambda>c. hint X c None))"

definition chooseHint ::
  "'cfg externals \<Rightarrow> (string \<times> jsval) list
     \<Rightarrow> js_error + (event list \<times> (string \<Rightarrow> issue list))" where
  "chooseHint X pluginOptions =
     (if truthy (field pluginOptions ''configFile'') then
        (case readFile X (field pluginOptions ''configFile'') of
           Inl e \<Rightarrow> configError X pluginOptions e
         | Inr txt \<Rightarrow>
             (case parse X txt of
                Inl e \<Rightarrow> configError X pluginOptions e
              | Inr config \<Rightarrow> Inr ([], \<lambda>c. hint X c (Some config))))
      else Inr ([], \<lambda>c. hint X c None))"

text \<open>
  \<open>onFile\<close> takes the list \<open>lintPromiseList\<close> of the closure and returns it with the events of
  the call. An exception of the \<open>catch\<close> block or of \<open>formatResult\<close> leaves \<open>onFile\<close>
  uncaught: the result is \<open>Inl\<close>, with what has been emitted before and the exception, and
  neither the list nor the completion callback is reached.
\<close>

definition onFile ::
  "'cfg externals \<Rightarrow> (string \<times> jsval) list \<Rightarrow> envelope list \<Rightarrow> vinyl
     \<Rightarrow> (event list \<times> js_error) + (event list \<times> envelope list)" where
  "onFile X pluginOptions lintPromiseList f =
     (if isNull f then Inr ([FileDone (Some f)], lintPromiseList)
      else if isStream f then
        Inr ([Emit (PluginError pluginName (Text ''Streaming is not supported'') None),
              FileDone None], lintPromiseList)
      else
        (case chooseHint X pluginOptions of
           Inl e \<Rightarrow> Inl ([], e)
         | Inr (evs, hint1) \<Rightarrow>
             (case formatResult (field pluginOptions ''errorLevel'')
                     (hint1 (case contents f of BufferContents s \<Rightarrow> s | _ \<Rightarrow> []))
                     (path f) of
                Inl e \<Rightarrow> Inl (evs, e)
              | Inr res \<Rightarrow> Inr (evs @ [FileDone (Some f)], lintPromiseList @ [res]))))"

section \<open>The completion aggregator\<close>

text \<open>
  \<open>reporters.map(reporter => reporter(warnings))\<close> calls the reporters from left to right; a
  reporter that throws ends the \<open>map\<close>, and the reporters after it are not called.
\<close>

fun invokeReporters ::
  "reporter list \<Rightarrow> nat \<Rightarrow> file_result list \<Rightarrow> event list \<times> (js_error + outcome list)" where
  "invokeReporters [] i ws = ([], Inr [])"
| "invokeReporters (r # rs) i ws =
     (case r ws of
        Throws e \<Rightarrow> ([Report i ws], Inl e)
      | out \<Rightarrow>
          (case invokeReporters rs (Suc i) ws of
             (evs, Inl e) \<Rightarrow> (Report i ws # evs, Inl e)
           | (evs, Inr outs) \<Rightarrow> (Report i ws # evs, Inr (out # outs))))"

text \<open>The rejection that happens first, the leftmost among those of the same time.\<close>

fun earliest :: "outcome list \<Rightarrow> (nat \<times> js_error) option" where
  "earliest [] = None"
| "earliest (Rejects t e # outs) =
     (case earliest outs of
        Some (t1, e1) \<Rightarrow> if t1 < t then Some (t1, e1) else Some (t, e)
      | None \<Rightarrow> Some (t, e))"
| "earliest (_ # outs) = earliest outs"

text \<open>
  \<open>passLintResultsThroughReporters\<close> returns the events of the calls and the error, if any,
  with which the promise it returns is rejected.
\<close>

definition passLintResultsThroughReporters ::
  "reporter list \<Rightarrow> envelope list \<Rightarrow> event list \<times> js_error option" where
  "passLintResultsThroughReporters reporters lintResults =
     (let ws = foldl (\<lambda>accumulated res. accumulated @ results res) [] lintResults in
      case invokeReporters reporters 0 ws of
        (evs, Inl e) \<Rightarrow> (evs, Some e)
      | (evs, Inr outs) \<Rightarrow> (evs, map_option snd (earliest outs)))"

definition isErrorSeverity :: "warning \<Rightarrow> bool" where
  "isErrorSeverity w = (severity w = Str ''error'')"

text \<open>
  The \<open>reduce\<close> of lines 184 to 187. \<open>res.results[0]\<close> of an empty \<open>results\<close> is \<open>undefined\<close>,
  whose \<open>warnings\<close> cannot be read.
\<close>

fun errorCount :: "envelope list \<Rightarrow> nat \<Rightarrow> js_error + nat" where
  "errorCount [] acc = Inr acc"
| "errorCount (res # rest) acc =
     (case results res of
        [] \<Rightarrow> Inl TypeError
      | r # _ \<Rightarrow> errorCount rest (acc + length (filter isErrorSeverity (warnings r))))"

text \<open>The decimal digits of a number, as a template literal writes it.\<close>

fun showNat :: "nat \<Rightarrow> string" where
  "showNat n =
     (if n < 10 then [''0123456789'' ! n]
      else showNat (n div 10) @ [''0123456789'' ! (n mod 10)])"

declare showNat.simps [simp del]

text \<open>The callback of lines 183 to 193, run once the reporters have finished.\<close>

definition deciding :: "(string \<times> jsval) list \<Rightarrow> envelope list \<Rightarrow> js_error + event list" where
  "deciding pluginOptions lintResults =
     (case errorCount lintResults 0 of
        Inl e \<Rightarrow> Inl e
      | Inr n \<Rightarrow>
          Inr ((if truthy (field pluginOptions ''failAfterError'') \<and> 0 < n then
                  [Emit (PluginError pluginName
                           (Text (''Failed with '' @ showNat n @ '' ''
                                  @ (if n = 1 then ''error'' else ''errors'')))
                           None)]
                else [])
               @ [StreamDone]))"

text \<open>
  \<open>onStreamEnd\<close> returns the events that happen and, when an exception leaves one of its
  callbacks uncaught, that exception: nothing happens after it, and the completion callback
  of the stream is not called. In the handler of \<open>catch\<close> the \<open>PluginError\<close> is made before
  \<open>done()\<close>.
\<close>

definition onStreamEnd ::
  "reporter list \<Rightarrow> (string \<times> jsval) list \<Rightarrow> envelope list
     \<Rightarrow> event list \<times> js_error option" where
  "onStreamEnd reporters pluginOptions lintPromiseList =
     (case passLintResultsThroughReporters reporters lintPromiseList of
        (evs, Some e) \<Rightarrow>
          (case newPluginError pluginName (Wrapped e)
                  (Some (truthy (field pluginOptions ''debug''))) of
             Inl x \<Rightarrow> (evs, Some x)
           | Inr pe \<Rightarrow> (evs @ [Emit pe, StreamDone], None))
      | (evs, None) \<Rightarrow>
          (case deciding pluginOptions lintPromiseList of
             Inl x \<Rightarrow> (evs, Some x)
           | Inr evs1 \<Rightarrow> (evs @ evs1, None)))"

section \<open>The stream\<close>

text \<open>
  \<open>through.obj(onFile, onStreamEnd)\<close>: the files are given to \<open>onFile\<close> one after the other in
  the order of their arrival, and \<open>onStreamEnd\<close> is called once after the last one. An
  exception that leaves \<open>onFile\<close> ends the run: no further file is processed and
  \<open>onStreamEnd\<close> is not called. A run is the events that happen and the uncaught exception,
  if there is one.
\<close>

fun transformAll ::
  "'cfg externals \<Rightarrow> (string \<times> jsval) list \<Rightarrow> envelope list \<Rightarrow> vinyl list
     \<Rightarrow> event list \<times> (js_error + envelope list)" where
  "transformAll X pluginOptions lintPromiseList [] = ([], Inr lintPromiseList)"
| "transformAll X pluginOptions lintPromiseList (f # fs) =
     (case onFile X pluginOptions lintPromiseList f of
        Inl (evs, e) \<Rightarrow> (evs, Inl e)
      | Inr (evs, l1) \<Rightarrow>
          (case transformAll X pluginOptions l1 fs of
             (evs1, r) \<Rightarrow> (evs @ evs1, r)))"

definition runStream ::
  "'cfg externals \<Rightarrow> reporter list \<Rightarrow> (string \<times> jsval) list \<Rightarrow> vinyl list
     \<Rightarrow> event list \<times> js_error option" where
  "runStream X reporters pluginOptions fs =
     (case transformAll X pluginOptions [] fs of
        (evs, Inl e) \<Rightarrow> (evs, Some e)
      | (evs, Inr l) \<Rightarrow>
          (case onStreamEnd reporters pluginOptions l of
             (evs1, r) \<Rightarrow> (evs @ evs1, r)))"

section \<open>The option resolver\<close>

text \<open>The assignment \<open>target[k] = v\<close> and \<open>delete target[k]\<close> on the properties of an object.\<close>

fun setProp :: "(string \<times> jsval) list \<Rightarrow> string \<Rightarrow> jsval \<Rightarrow> (string \<times> jsval) list" where
  "setProp [] k v = [(k, v)]"
| "setProp ((k1, v1) # ps) k v =
     (if k1 = k then (k, v) # ps else (k1, v1) # setProp ps k v)"

definition deleteProp :: "(string \<times> jsval) list \<Rightarrow> string \<Rightarrow> (string \<times> jsval) list" where
  "deleteProp ps k = filter (\<lambda>p. fst p \<noteq> k) ps"

text \<open>
  Modelled from the spec: \<open>deepExtend\<close> is imported from the package \<open>deep-extend\<close>, which is
  not among the sources. It is the deep merge of the spec: every property of the source
  object is written to the target, the source's value winning; where the source's value is an
  object it is merged into the target's value if that is an object too, and into a fresh
  empty object otherwise, so that the result shares nothing with the source (a deep copy).
  A source that is not an object (an absent argument) leaves the target as it is.
\<close>

fun extendProps :: "(string \<times> jsval) list \<Rightarrow> (string \<times> jsval) list \<Rightarrow> (string \<times> jsval) list" where
  "extendProps target [] = target"
| "extendProps target ((k, v) # rest) =
     extendProps
       (setProp target k
          (case v of
             Obj vs \<Rightarrow>
               (case map_of target k of
                  Some (Obj ts) \<Rightarrow> Obj (extendProps ts vs)
                | _ \<Rightarrow> Obj (extendProps [] vs))
           | _ \<Rightarrow> v))
       rest"

definition deepExtend :: "(string \<times> jsval) list \<Rightarrow> jsval \<Rightarrow> (string \<times> jsval) list" where
  "deepExtend target options =
     (case options of Obj ps \<Rightarrow> extendProps target ps | _ \<Rightarrow> target)"

text \<open>Lines 36 to 40 and 46 to 68 of \<open>gulpHtmlcs\<close>.\<close>

definition pluginOptionsOf :: "jsval \<Rightarrow> (string \<times> jsval) list" where
  "pluginOptionsOf options =
     deepExtend [(''failAfterError'', Bool True), (''debug'', Bool False),
                 (''errorLevel'', Obj [])] options"

definition lintOptionsOf :: "jsval \<Rightarrow> (string \<times> jsval) list" where
  "lintOptionsOf options =
     deleteProp (deleteProp (deleteProp (deleteProp (deleteProp (deepExtend [] options)
       ''files'') ''formatter'') ''reportOutputDir'') ''reporters'') ''debug''"

text \<open>
  Lines 52 and 53: a truthy \<open>reporters\<close> option must be an array, whose \<open>map\<close> makes one
  reporter of each configuration; a falsy one stands for the empty array.
\<close>

definition reportersOf ::
  "'cfg externals \<Rightarrow> (string \<times> jsval) list \<Rightarrow> js_error + reporter list" where
  "reportersOf X pluginOptions =
     (let r = field pluginOptions ''reporters'' in
      if truthy r then
        (case r of
           Arr configs \<Rightarrow> Inr (map (\<lambda>config. reporterFactory X config pluginOptions) configs)
         | _ \<Rightarrow> Inl TypeError)
      else Inr [])"

text \<open>The plugin applied to the caller's options, and the stream it returns run on files.\<close>

definition gulpHtmlcs ::
  "'cfg externals \<Rightarrow> jsval \<Rightarrow> vinyl list \<Rightarrow> event list \<times> js_error option" where
  "gulpHtmlcs X options fs =
     (let pluginOptions = pluginOptionsOf options in
      case reportersOf X pluginOptions of
        Inl e \<Rightarrow> ([], Some e)
      | Inr reporters \<Rightarrow> runStream X reporters pluginOptions fs)"

text \<open>The keys of an object are pairwise distinct, at every depth.\<close>

fun wf :: "jsval \<Rightarrow> bool" where
  "wf (Obj ps) = (distinct (map fst ps) \<and> list_all (\<lambda>p. wf (snd p)) ps)"
| "wf (Arr vs) = list_all wf vs"
| "wf _ = True"

section \<open>What the stage shows outside\<close>

text \<open>
  The errors emitted on the error channel, the files handed downstream, and the number of
  times the completion callback of the stream is called, read off the events.
\<close>

fun emitted :: "event list \<Rightarrow> plugin_error list" where
  "emitted [] = []"
| "emitted (Emit e # evs) = e # emitted evs"
| "emitted (_ # evs) = emitted evs"

fun pushed :: "event list \<Rightarrow> vinyl list" where
  "pushed [] = []"
| "pushed (FileDone (Some f) # evs) = f # pushed evs"
| "pushed (_ # evs) = pushed evs"

fun reported :: "event list \<Rightarrow> (nat \<times> file_result list) list" where
  "reported [] = []"
| "reported (Report i ws # evs) = (i, ws) # reported evs"
| "reported (_ # evs) = reported evs"

section \<open>Properties of the result normalizer\<close>

lemma getProp_truthy: "truthy entry \<Longrightarrow> \<exists>s. getProp entry k = Inr s"
  by (cases entry) auto

lemma inherited_severity: "inherited ''severity'' = Undefined"
  by (simp add: inherited_def objectPrototype_def)

lemma severityOf_total: "\<exists>s. severityOf (Obj el) item = Inr s"
proof (cases "truthy (case map_of el (issue.rule item) of Some v \<Rightarrow> v
                     | None \<Rightarrow> inherited (issue.rule item))")
  case True
  then obtain s where "getProp (case map_of el (issue.rule item) of Some v \<Rightarrow> v
                     | None \<Rightarrow> inherited (issue.rule item)) ''severity'' = Inr s"
    using getProp_truthy by blast
  with True show ?thesis by (simp add: severityOf_def)
next
  case False
  then show ?thesis by (simp add: severityOf_def)
qed

lemma formatItems_Obj:
  "\<exists>ws. formatItems (Obj el) result b = Inr (ws, b \<or> (\<exists>item\<in>set result. type item = ''ERROR''))
     \<and> map Inr (map severity ws) = map (severityOf (Obj el)) result"
proof (induction result arbitrary: b)
  case Nil
  then show ?case by simp
next
  case (Cons item rest)
  obtain s where s: "severityOf (Obj el) item = Inr s"
    using severityOf_total by blast
  let ?b1 = "if type item = ''ERROR'' then True else b"
  obtain ws where ws: "formatItems (Obj el) rest ?b1
      = Inr (ws, ?b1 \<or> (\<exists>item\<in>set rest. type item = ''ERROR''))"
    and sev: "map Inr (map severity ws) = map (severityOf (Obj el)) rest"
    using Cons.IH [of ?b1] by blast
  show ?case
    using s ws sev by (simp add: Let_def)
qed

lemma formatResult_Obj:
  "\<exists>ws. formatResult (Obj el) result src =
          Inr \<lparr> results = [\<lparr> source = src,
                              errored = (\<exists>item\<in>set result. type item = ''ERROR''),
                              warnings = ws, deprecations = [], invalidOptionWarnings = [],
                              ignored = False \<rparr>] \<rparr>
     \<and> map Inr (map severity ws) = map (severityOf (Obj el)) result"
proof -
  obtain ws where "formatItems (Obj el) result False
      = Inr (ws, False \<or> (\<exists>item\<in>set result. type item = ''ERROR''))"
    and "map Inr (map severity ws) = map (severityOf (Obj el)) result"
    using formatItems_Obj [of el result False] by blast
  then show ?thesis by (simp add: formatResult_def)
qed

lemma severityOf_Obj:
  "severityOf (Obj el) item =
     Inr (let entry = (case map_of el (issue.rule item) of
                         Some v \<Rightarrow> v
                       | None \<Rightarrow> inherited (issue.rule item))
          in if truthy entry then
               (case entry of
                  Obj ps \<Rightarrow>
                    (case map_of ps ''severity'' of
                       Some s \<Rightarrow> if truthy s then s else Str ''warning''
                     | None \<Rightarrow> Str ''warning'')
                | _ \<Rightarrow> Str ''warning'')
             else Str (toLowerCase (type item)))"
proof -
  define entry where "entry = (case map_of el (issue.rule item) of
                         Some v \<Rightarrow> v
                       | None \<Rightarrow> inherited (issue.rule item))"
  have g: "getProp (Obj el) (issue.rule item) = Inr entry"
    by (simp add: entry_def)
  have "severityOf (Obj el) item =
     Inr (if truthy entry then
               (case entry of
                  Obj ps \<Rightarrow>
                    (case map_of ps ''severity'' of
                       Some s \<Rightarrow> if truthy s then s else Str ''warning''
                     | None \<Rightarrow> Str ''warning'')
                | _ \<Rightarrow> Str ''warning'')
             else Str (toLowerCase (type item)))"
    unfolding severityOf_def g
    by (cases entry) (simp_all add: inherited_severity split: option.splits)
  then show ?thesis by (simp add: entry_def Let_def)
qed

text \<open>
  Claim C3. For every list of issue records and every \<open>errorLevel\<close> mapping, the normalizer
  returns one file result, whose \<open>errored\<close> is true exactly when some record of the list has
  the type \<open>'ERROR'\<close>; the overrides of \<open>errorLevel\<close> play no part.
\<close>

theorem formatResult_errored:
  "\<exists>r. formatResult (Obj el) result src = Inr \<lparr> results = [r] \<rparr>
     \<and> errored r = (\<exists>item\<in>set result. type item = ''ERROR'')"
  using formatResult_Obj [of el result src] by auto

theorem formatResult_errored_witness:
  "(\<exists>r. formatResult (Obj [(''no-empty-tag'', Obj [(''severity'', Str ''warning'')])])
          [\<lparr> issue.line = 1, column = 1, rule = ''no-empty-tag'', type = ''ERROR'',
              message = ''m'', code = Str ''001'' \<rparr>] ''a.html'' = Inr \<lparr> results = [r] \<rparr>
        \<and> errored r = True)
   \<and> (\<exists>r. formatResult (Obj [])
          [\<lparr> issue.line = 1, column = 1, rule = ''no-empty-tag'', type = ''WARNING'',
              message = ''m'', code = Str ''001'' \<rparr>] ''a.html'' = Inr \<lparr> results = [r] \<rparr>
        \<and> errored r = False)"
  using formatResult_errored [of "[(''no-empty-tag'', Obj [(''severity'', Str ''warning'')])]"
      "[\<lparr> issue.line = 1, column = 1, rule = ''no-empty-tag'', type = ''ERROR'',
              message = ''m'', code = Str ''001'' \<rparr>]" "''a.html''"]
    formatResult_errored [of "[]"
      "[\<lparr> issue.line = 1, column = 1, rule = ''no-empty-tag'', type = ''WARNING'',
              message = ''m'', code = Str ''001'' \<rparr>]" "''a.html''"]
  by simp

text \<open>
  Claim C2, as the code has it. For every record, the entry of its rule is the own property
  of \<open>errorLevel\<close> under the rule name or, without one, the member of \<open>Object.prototype\<close> of
  that name (for a rule named \<open>constructor\<close> or \<open>toString\<close>, say), and \<open>undefined\<close> when
  there is neither. The severity of the warning is: the \<open>severity\<close> of the entry when the
  entry is truthy and its \<open>severity\<close> is truthy; \<open>'warning'\<close> when the entry is truthy and has
  no \<open>severity\<close> or a falsy one (the empty string, for instance); the lower-cased type of the
  record when the entry is falsy or there is none. \<open>'ERROR'\<close> lower-cases to \<open>'error'\<close> and
  \<open>'WARNING'\<close> to \<open>'warning'\<close>.
\<close>

theorem formatResult_severity:
  "\<exists>r. formatResult (Obj el) result src = Inr \<lparr> results = [r] \<rparr>
     \<and> map severity (warnings r) =
         map (\<lambda>item.
                let entry = (case map_of el (issue.rule item) of
                               Some v \<Rightarrow> v
                             | None \<Rightarrow> inherited (issue.rule item))
                in if truthy entry then
                     (case entry of
                        Obj ps \<Rightarrow>
                          (case map_of ps ''severity'' of
                             Some s \<Rightarrow> if truthy s then s else Str ''warning''
                           | None \<Rightarrow> Str ''warning'')
                      | _ \<Rightarrow> Str ''warning'')
                   else Str (toLowerCase (type item))) result
     \<and> toLowerCase ''ERROR'' = ''error'' \<and> toLowerCase ''WARNING'' = ''warning''"
proof -
  obtain ws where r: "formatResult (Obj el) result src =
          Inr \<lparr> results = [\<lparr> source = src,
                              errored = (\<exists>item\<in>set result. type item = ''ERROR''),
                              warnings = ws, deprecations = [], invalidOptionWarnings = [],
                              ignored = False \<rparr>] \<rparr>"
    and sev: "map Inr (map severity ws) = map (severityOf (Obj el)) result"
    using formatResult_Obj [of el result src] by blast
  have "map (Inr :: jsval \<Rightarrow> js_error + jsval) (map severity ws) =
        map Inr (map (\<lambda>item.
                let entry = (case map_of el (issue.rule item) of
                               Some v \<Rightarrow> v
                             | None \<Rightarrow> inherited (issue.rule item))
                in if truthy entry then
                     (case entry of
                        Obj ps \<Rightarrow>
                          (case map_of ps ''severity'' of
                             Some s \<Rightarrow> if truthy s then s else Str ''warning''
                           | None \<Rightarrow> Str ''warning'')
                      | _ \<Rightarrow> Str ''warning'')
                   else Str (toLowerCase (type item))) result)"
    unfolding sev by (simp add: severityOf_Obj)
  then have "map severity ws = map (\<lambda>item.
                let entry = (case map_of el (issue.rule item) of
                               Some v \<Rightarrow> v
                             | None \<Rightarrow> inherited (issue.rule item))
                in if truthy entry then
                     (case entry of
                        Obj ps \<Rightarrow>
                          (case map_of ps ''severity'' of
                             Some s \<Rightarrow> if truthy s then s else Str ''warning''
                           | None \<Rightarrow> Str ''warning'')
                      | _ \<Rightarrow> Str ''warning'')
                   else Str (toLowerCase (type item))) result"
    by (rule map_injective) (simp add: inj_on_def)
  moreover have "toLowerCase ''ERROR'' = ''error''" "toLowerCase ''WARNING'' = ''warning''"
    by (simp_all add: toLowerCase_def lowerChar_def)
  ultimately show ?thesis using r by simp
qed

theorem formatResult_severity_witness:
  "(\<exists>r. formatResult (Obj [(''no-empty-tag'', Obj [(''severity'', Str ''error'')])])
          [\<lparr> issue.line = 1, column = 1, rule = ''no-empty-tag'', type = ''WARNING'',
              message = ''m'', code = Str ''001'' \<rparr>,
           \<lparr> issue.line = 2, column = 1, rule = ''img-alt'', type = ''ERROR'',
              message = ''m'', code = Str ''002'' \<rparr>,
           \<lparr> issue.line = 3, column = 1, rule = ''constructor'', type = ''ERROR'',
              message = ''m'', code = Str ''003'' \<rparr>] ''a.html'' = Inr \<lparr> results = [r] \<rparr>
        \<and> map severity (warnings r) = [Str ''error'', Str ''error'', Str ''warning''])
   \<and> (\<exists>r. formatResult (Obj [(''no-empty-tag'', Obj [])])
          [\<lparr> issue.line = 1, column = 1, rule = ''no-empty-tag'', type = ''WARNING'',
              message = ''m'', code = Str ''001'' \<rparr>,
           \<lparr> issue.line = 2, column = 1, rule = ''img-alt'', type = ''WARNING'',
              message = ''m'', code = Str ''002'' \<rparr>] ''a.html'' = Inr \<lparr> results = [r] \<rparr>
        \<and> map severity (warnings r) = [Str ''warning'', Str ''warning''])"
  using formatResult_severity [of "[(''no-empty-tag'', Obj [(''severity'', Str ''error'')])]"
          "[\<lparr> issue.line = 1, column = 1, rule = ''no-empty-tag'', type = ''WARNING'',
              message = ''m'', code = Str ''001'' \<rparr>,
           \<lparr> issue.line = 2, column = 1, rule = ''img-alt'', type = ''ERROR'',
              message = ''m'', code = Str ''002'' \<rparr>,
           \<lparr> issue.line = 3, column = 1, rule = ''constructor'', type = ''ERROR'',
              message = ''m'', code = Str ''003'' \<rparr>]" "''a.html''"]
    formatResult_severity [of "[(''no-empty-tag'', Obj [])]"
          "[\<lparr> issue.line = 1, column = 1, rule = ''no-empty-tag'', type = ''WARNING'',
              message = ''m'', code = Str ''001'' \<rparr>,
           \<lparr> issue.line = 2, column = 1, rule = ''img-alt'', type = ''WARNING'',
              message = ''m'', code = Str ''002'' \<rparr>]" "''a.html''"]
  by (simp add: toLowerCase_def lowerChar_def inherited_def objectPrototype_def)

text \<open>
  Claim C2 as stated says that a \<open>severity\<close> field that exists is used. With
  \<open>errorLevel = {'no-empty-tag': {severity: ''}}\<close> the field exists and is the empty string,
  and the warning gets the severity \<open>'warning'\<close>: line 79 takes the default for every falsy
  \<open>severity\<close>.
\<close>

theorem formatResult_empty_severity:
  "formatResult (Obj [(''no-empty-tag'', Obj [(''severity'', Str '''')])])
     [\<lparr> issue.line = 1, column = 1, rule = ''no-empty-tag'', type = ''ERROR'',
         message = ''m'', code = Str ''001'' \<rparr>] ''a.html''
   = Inr \<lparr> results = [\<lparr> source = ''a.html'', errored = True,
                warnings = [\<lparr> line = 1, column = 1, rule = ''no-empty-tag'',
                              severity = Str ''warning'', text' = ''m'', code = Str ''001'' \<rparr>],
                deprecations = [], invalidOptionWarnings = [], ignored = False \<rparr>] \<rparr>"
  by (simp add: formatResult_def severityOf_def inherited_def objectPrototype_def)

section \<open>Properties of the file processor\<close>

text \<open>
  Claim C5. For a file whose contents are a stream, \<open>onFile\<close> emits the error
  \<open>'Streaming is not supported'\<close> of the plugin and calls the completion callback with no
  argument: nothing is handed downstream, and the list of lint results is as it was.
\<close>

theorem onFile_stream:
  "isStream f \<Longrightarrow>
     \<exists>evs. onFile X pluginOptions lintPromiseList f = Inr (evs, lintPromiseList)
       \<and> evs = [Emit (PluginError ''gulp-htmlcs'' (Text ''Streaming is not supported'') None),
                 FileDone None]
       \<and> pushed evs = []"
  by (simp add: onFile_def isStream_def isNull_def pluginName_def)

theorem onFile_stream_witness:
  "isStream \<lparr> path = ''a.html'', contents = StreamContents \<rparr>
   \<and> onFile \<lparr> readFileSync = (\<lambda>p. Inl (Failure ''ENOENT'')), parse = (\<lambda>t. Inr ()),
              hint = (\<lambda>c g. []), reporterFactory = (\<lambda>c po ws. Resolves) \<rparr>
        [(''failAfterError'', Bool True), (''debug'', Bool False), (''errorLevel'', Obj [])]
        [] \<lparr> path = ''a.html'', contents = StreamContents \<rparr>
      = Inr ([Emit (PluginError ''gulp-htmlcs'' (Text ''Streaming is not supported'') None),
              FileDone None], [])"
  using onFile_stream [of "\<lparr> path = ''a.html'', contents = StreamContents \<rparr>"
      "\<lparr> readFileSync = (\<lambda>p. Inl (Failure ''ENOENT'')), parse = (\<lambda>t. Inr ()),
              hint = (\<lambda>c g. []), reporterFactory = (\<lambda>c po ws. Resolves) \<rparr>"
      "[(''failAfterError'', Bool True), (''debug'', Bool False), (''errorLevel'', Obj [])]" "[]"]
  by (simp add: isStream_def)

text \<open>
  Claim C6. For a file with no contents, \<open>onFile\<close> calls the completion callback with the file
  itself and does nothing else: the file goes downstream as it is, no error is emitted, the
  result does not depend on the lint engine or on any other collaborator, and the list of lint
  results is as it was.
\<close>

theorem onFile_null:
  "isNull f \<Longrightarrow>
     \<exists>evs. onFile X pluginOptions lintPromiseList f = Inr (evs, lintPromiseList)
       \<and> evs = [FileDone (Some f)] \<and> pushed evs = [f] \<and> emitted evs = []"
  by (simp add: onFile_def)

theorem onFile_null_witness:
  "isNull \<lparr> path = ''a.html'', contents = NoContents \<rparr>
   \<and> onFile \<lparr> readFileSync = (\<lambda>p. Inl (Failure ''ENOENT'')), parse = (\<lambda>t. Inr ()),
              hint = (\<lambda>c g. []), reporterFactory = (\<lambda>c po ws. Resolves) \<rparr>
        [(''failAfterError'', Bool True), (''debug'', Bool False), (''errorLevel'', Obj []),
         (''configFile'', Str ''.htmlcsrc'')]
        [] \<lparr> path = ''a.html'', contents = NoContents \<rparr>
      = Inr ([FileDone (Some \<lparr> path = ''a.html'', contents = NoContents \<rparr>)], [])"
  using onFile_null [of "\<lparr> path = ''a.html'', contents = NoContents \<rparr>"
      "\<lparr> readFileSync = (\<lambda>p. Inl (Failure ''ENOENT'')), parse = (\<lambda>t. Inr ()),
              hint = (\<lambda>c g. []), reporterFactory = (\<lambda>c po ws. Resolves) \<rparr>"
      "[(''failAfterError'', Bool True), (''debug'', Bool False), (''errorLevel'', Obj []),
         (''configFile'', Str ''.htmlcsrc'')]" "[]"]
  by (simp add: isNull_def)

text \<open>
  Claim C7. For a file with buffered contents, when \<open>configFile\<close> is set and reading or
  parsing it throws \<open>e\<close>, an error of the file system or of the parser, which has a message:
  the error \<open>e\<close> is emitted with \<open>showStack\<close> equal to \<open>Boolean(debug)\<close>, the contents are
  linted by the engine without a configuration, the normalized result is appended to the list
  of lint results, and the file is handed downstream. \<open>errorLevel\<close> is a mapping, as in the
  data model.
\<close>

theorem onFile_config_failure:
  assumes "isBuffer f"
    and "truthy (field pluginOptions ''configFile'')"
    and "readFile X (field pluginOptions ''configFile'') = Inl e
         \<or> (\<exists>txt. readFile X (field pluginOptions ''configFile'') = Inr txt \<and> parse X txt = Inl e)"
    and "hasMessage e"
    and "field pluginOptions ''errorLevel'' = Obj el"
  shows "\<exists>s res. contents f = BufferContents s
           \<and> formatResult (Obj el) (hint X s None) (path f) = Inr res
           \<and> onFile X pluginOptions lintPromiseList f =
               Inr ([Emit (PluginError ''gulp-htmlcs'' (Wrapped e)
                             (Some (truthy (field pluginOptions ''debug'')))),
                     FileDone (Some f)],
                    lintPromiseList @ [res])"
proof -
  obtain s where s: "contents f = BufferContents s"
    using assms(1) by (cases "contents f") (simp_all add: isBuffer_def isNull_def isStream_def)
  obtain res where res: "formatResult (Obj el) (hint X s None) (path f) = Inr res"
    using formatResult_Obj [of el "hint X s None" "path f"] by blast
  have ce: "configError X pluginOptions e =
      Inr ([Emit (PluginError pluginName (Wrapped e)
                    (Some (truthy (field pluginOptions ''debug''))))],
           \<lambda>c. hint X c None)"
    using assms(4) by (simp add: configError_def newPluginError_def pluginName_def)
  have ch: "chooseHint X pluginOptions =
      Inr ([Emit (PluginError pluginName (Wrapped e)
                    (Some (truthy (field pluginOptions ''debug''))))],
           \<lambda>c. hint X c None)"
    using assms(2,3) ce by (auto simp: chooseHint_def)
  have "onFile X pluginOptions lintPromiseList f =
      Inr ([Emit (PluginError pluginName (Wrapped e) (Some (truthy (field pluginOptions ''debug'')))),
            FileDone (Some f)], lintPromiseList @ [res])"
    using assms(1,5) s res
    by (simp add: onFile_def ch isBuffer_def)
  then show ?thesis using s res by (simp add: pluginName_def)
qed

theorem onFile_config_failure_witness:
  "isBuffer \<lparr> path = ''a.html'', contents = BufferContents ''<p></p>'' \<rparr>
   \<and> hasMessage (Failure ''ENOENT'')
   \<and> onFile \<lparr> readFileSync = (\<lambda>p. Inl (Failure ''ENOENT'')), parse = (\<lambda>t. Inr ()),
              hint = (\<lambda>c g. [\<lparr> issue.line = 1, column = 1, rule = ''no-empty-tag'',
                                   type = ''ERROR'', message = ''m'', code = Str ''001'' \<rparr>]),
              reporterFactory = (\<lambda>c po ws. Resolves) \<rparr>
        [(''failAfterError'', Bool True), (''debug'', Bool True), (''errorLevel'', Obj []),
         (''configFile'', Str ''.htmlcsrc'')]
        [] \<lparr> path = ''a.html'', contents = BufferContents ''<p></p>'' \<rparr>
      = Inr ([Emit (PluginError ''gulp-htmlcs'' (Wrapped (Failure ''ENOENT'')) (Some True)),
              FileDone (Some \<lparr> path = ''a.html'', contents = BufferContents ''<p></p>'' \<rparr>)],
             [\<lparr> results = [\<lparr> source = ''a.html'', errored = True,
                warnings = [\<lparr> line = 1, column = 1, rule = ''no-empty-tag'',
                              severity = Str ''error'', text' = ''m'', code = Str ''001'' \<rparr>],
                deprecations = [], invalidOptionWarnings = [], ignored = False \<rparr>] \<rparr>])"
  using onFile_config_failure [of "\<lparr> path = ''a.html'', contents = BufferContents ''<p></p>'' \<rparr>"
      "[(''failAfterError'', Bool True), (''debug'', Bool True), (''errorLevel'', Obj []),
         (''configFile'', Str ''.htmlcsrc'')]"
      "\<lparr> readFileSync = (\<lambda>p. Inl (Failure ''ENOENT'')), parse = (\<lambda>t. Inr ()),
              hint = (\<lambda>c g. [\<lparr> issue.line = 1, column = 1, rule = ''no-empty-tag'',
                                   type = ''ERROR'', message = ''m'', code = Str ''001'' \<rparr>]),
              reporterFactory = (\<lambda>c po ws. Resolves) \<rparr>"
      "Failure ''ENOENT''" "[]" "[]"]
  by (simp add: isBuffer_def isNull_def isStream_def field_def readFile_def formatResult_def
      severityOf_def toLowerCase_def lowerChar_def inherited_def objectPrototype_def)

text \<open>
  The message is needed. Were an error without one thrown, the constructor of \<open>PluginError\<close>
  would throw \<open>Missing error message\<close> inside the \<open>catch\<close> block and the exception would
  leave \<open>onFile\<close>: nothing emitted, the file not linted, no result recorded and the completion
  callback not called.
\<close>

lemma onFile_config_error_without_message:
  "onFile \<lparr> readFileSync = (\<lambda>p. Inl (Failure '''')), parse = (\<lambda>t. Inr ()),
              hint = (\<lambda>c g. [\<lparr> issue.line = 1, column = 1, rule = ''no-empty-tag'',
                                   type = ''ERROR'', message = ''m'', code = Str ''001'' \<rparr>]),
              reporterFactory = (\<lambda>c po ws. Resolves) \<rparr>
     [(''failAfterError'', Bool True), (''debug'', Bool True), (''errorLevel'', Obj []),
         (''configFile'', Str ''.htmlcsrc'')]
     [] \<lparr> path = ''a.html'', contents = BufferContents ''<p></p>'' \<rparr>
   = Inl ([], Failure ''Missing error message'')"
  by (simp add: onFile_def isNull_def isStream_def chooseHint_def configError_def
      newPluginError_def pluginName_def field_def readFile_def)

section \<open>Properties of the completion aggregator\<close>

lemma foldl_results: "foldl (\<lambda>accumulated res. accumulated @ results res) a l = a @ concat (map results l)"
  by (induction l arbitrary: a) simp_all

lemma errorCount_singletons:
  "\<forall>res\<in>set l. length (results res) = 1 \<Longrightarrow>
     errorCount l acc =
       Inr (acc + length (filter isErrorSeverity (concat (map warnings (concat (map results l))))))"
proof (induction l arbitrary: acc)
  case Nil
  then show ?case by simp
next
  case (Cons res rest)
  then obtain r where r: "results res = [r]"
    by (cases "results res") auto
  show ?case using Cons r by simp
qed

lemma errorCount_total:
  "\<forall>res\<in>set l. results res \<noteq> [] \<Longrightarrow> \<exists>n. errorCount l acc = Inr n"
proof (induction l arbitrary: acc)
  case Nil
  then show ?case by simp
next
  case (Cons res rest)
  then obtain r rs where r: "results res = r # rs"
    by (cases "results res") auto
  show ?case using Cons r by simp
qed

lemma invokeReporters_events:
  "fst (invokeReporters rs i ws) =
     map (\<lambda>j. Report j ws)
       [i..<i + min (length rs) (Suc (length (takeWhile (\<lambda>r. \<nexists>e. r ws = Throws e) rs)))]"
proof (induction rs arbitrary: i)
  case Nil
  then show ?case by simp
next
  case (Cons r rs)
  show ?case
  proof (cases "\<exists>e. r ws = Throws e")
    case True
    then obtain e where e: "r ws = Throws e" by blast
    have ev: "fst (invokeReporters (r # rs) i ws) = [Report i ws]"
      using e by simp
    have tw: "takeWhile (\<lambda>r. \<nexists>e. r ws = Throws e) (r # rs) = []"
      using e by simp
    have k1: "min (length (r # rs))
        (Suc (length (takeWhile (\<lambda>r. \<nexists>e. r ws = Throws e) (r # rs)))) = 1"
      unfolding tw by simp
    show ?thesis
      unfolding k1 ev by (simp add: upt_rec)
  next
    case False
    define k where
      "k = min (length rs) (Suc (length (takeWhile (\<lambda>r. \<nexists>e. r ws = Throws e) rs)))"
    have "fst (invokeReporters (r # rs) i ws) = Report i ws # fst (invokeReporters rs (Suc i) ws)"
      using False by (cases "r ws") (auto split: prod.splits sum.splits)
    also have "\<dots> = Report i ws # map (\<lambda>j. Report j ws) [Suc i..<Suc i + k]"
      unfolding k_def by (simp only: Cons.IH)
    also have "\<dots> = map (\<lambda>j. Report j ws) [i..<i + Suc k]"
      by (simp add: upt_conv_Cons)
    also have "Suc k = min (length (r # rs))
        (Suc (length (takeWhile (\<lambda>r. \<nexists>e. r ws = Throws e) (r # rs))))"
      using False by (simp add: k_def)
    finally show ?thesis .
  qed
qed

lemma reports_no_StreamDone: "StreamDone \<notin> set (fst (invokeReporters rs i ws))"
  unfolding invokeReporters_events by auto

lemma fst_pass:
  "fst (passLintResultsThroughReporters rs l) = fst (invokeReporters rs 0 (concat (map results l)))"
  by (simp add: passLintResultsThroughReporters_def foldl_results split: prod.splits sum.splits)

lemma pass_no_StreamDone: "StreamDone \<notin> set (fst (passLintResultsThroughReporters rs l))"
  by (simp add: fst_pass reports_no_StreamDone)

lemma emitted_append: "emitted (xs @ ys) = emitted xs @ emitted ys"
  by (induction xs rule: emitted.induct) simp_all

lemma emitted_reports: "emitted (map (\<lambda>j. Report j ws) js) = []"
  by (induction js) simp_all

lemma emitted_invoke: "emitted (fst (invokeReporters rs i ws)) = []"
  unfolding invokeReporters_events by (rule emitted_reports)

lemma emitted_pass: "emitted (fst (passLintResultsThroughReporters rs l)) = []"
  by (simp add: fst_pass emitted_invoke)

text \<open>
  Claim C1. The lint results are those the file processor has recorded, one file result in
  each. With \<open>n\<close> the number of warnings of all files whose severity is exactly \<open>'error'\<close>,
  the Deciding step emits an error exactly when \<open>failAfterError\<close> is truthy (for a boolean
  option: true) and \<open>n\<close> is positive. The error is that of the plugin, with the message
  \<open>Failed with 1 error\<close> when \<open>n\<close> is 1 and \<open>Failed with n errors\<close>, \<open>n\<close> in decimal digits,
  when it is more. When \<open>n\<close> is 0 or \<open>failAfterError\<close> is falsy the step only signals the
  completion of the stream.
\<close>

theorem deciding_threshold:
  assumes "\<forall>res\<in>set lintResults. length (results res) = 1"
  shows "let n = length (filter isErrorSeverity
                   (concat (map warnings (concat (map results lintResults))))) in
         deciding pluginOptions lintResults =
           Inr ((if truthy (field pluginOptions ''failAfterError'') \<and> 0 < n then
                   [Emit (PluginError ''gulp-htmlcs''
                            (Text (if n = 1 then ''Failed with 1 error''
                                   else ''Failed with '' @ showNat n @ '' errors''))
                            None)]
                 else [])
                @ [StreamDone])"
proof -
  have "showNat 1 = ''1''" by (simp add: showNat.simps)
  then show ?thesis
    using errorCount_singletons [OF assms, of 0]
    by (simp add: deciding_def pluginName_def Let_def)
qed

theorem deciding_threshold_witness:
  "deciding [(''failAfterError'', Bool True), (''debug'', Bool False), (''errorLevel'', Obj [])]
     [\<lparr> results = [\<lparr> source = ''a.html'', errored = True,
                warnings = [\<lparr> line = 1, column = 1, rule = ''no-empty-tag'',
                              severity = Str ''error'', text' = ''m'', code = Str ''001'' \<rparr>],
                deprecations = [], invalidOptionWarnings = [], ignored = False \<rparr>] \<rparr>,
      \<lparr> results = [\<lparr> source = ''b.html'', errored = True,
                warnings = [\<lparr> line = 1, column = 1, rule = ''img-alt'',
                              severity = Str ''warning'', text' = ''m'', code = Str ''002'' \<rparr>,
                            \<lparr> line = 2, column = 1, rule = ''no-empty-tag'',
                              severity = Str ''error'', text' = ''m'', code = Str ''001'' \<rparr>],
                deprecations = [], invalidOptionWarnings = [], ignored = False \<rparr>] \<rparr>]
   = Inr [Emit (PluginError ''gulp-htmlcs'' (Text ''Failed with 2 errors'') None), StreamDone]
   \<and> deciding [(''failAfterError'', Bool True), (''debug'', Bool False), (''errorLevel'', Obj [])]
     [\<lparr> results = [\<lparr> source = ''a.html'', errored = True,
                warnings = [\<lparr> line = 1, column = 1, rule = ''no-empty-tag'',
                              severity = Str ''error'', text' = ''m'', code = Str ''001'' \<rparr>],
                deprecations = [], invalidOptionWarnings = [], ignored = False \<rparr>] \<rparr>]
   = Inr [Emit (PluginError ''gulp-htmlcs'' (Text ''Failed with 1 error'') None), StreamDone]
   \<and> deciding [(''failAfterError'', Bool True), (''debug'', Bool False), (''errorLevel'', Obj [])]
     [\<lparr> results = [\<lparr> source = ''a.html'', errored = True,
                warnings = [\<lparr> line = 1, column = 1, rule = ''no-empty-tag'',
                              severity = Str ''warning'', text' = ''m'', code = Str ''001'' \<rparr>],
                deprecations = [], invalidOptionWarnings = [], ignored = False \<rparr>] \<rparr>]
   = Inr [StreamDone]
   \<and> deciding [(''failAfterError'', Bool False), (''debug'', Bool False), (''errorLevel'', Obj [])]
     [\<lparr> results = [\<lparr> source = ''a.html'', errored = True,
                warnings = [\<lparr> line = 1, column = 1, rule = ''no-empty-tag'',
                              severity = Str ''error'', text' = ''m'', code = Str ''001'' \<rparr>],
                deprecations = [], invalidOptionWarnings = [], ignored = False \<rparr>] \<rparr>]
   = Inr [StreamDone]"
  using deciding_threshold [of
     "[\<lparr> results = [\<lparr> source = ''a.html'', errored = True,
                warnings = [\<lparr> line = 1, column = 1, rule = ''no-empty-tag'',
                              severity = Str ''error'', text' = ''m'', code = Str ''001'' \<rparr>],
                deprecations = [], invalidOptionWarnings = [], ignored = False \<rparr>] \<rparr>,
      \<lparr> results = [\<lparr> source = ''b.html'', errored = True,
                warnings = [\<lparr> line = 1, column = 1, rule = ''img-alt'',
                              severity = Str ''warning'', text' = ''m'', code = Str ''002'' \<rparr>,
                            \<lparr> line = 2, column = 1, rule = ''no-empty-tag'',
                              severity = Str ''error'', text' = ''m'', code = Str ''001'' \<rparr>],
                deprecations = [], invalidOptionWarnings = [], ignored = False \<rparr>] \<rparr>]"
     "[(''failAfterError'', Bool True), (''debug'', Bool False), (''errorLevel'', Obj [])]"]
   deciding_threshold [of
     "[\<lparr> results = [\<lparr> source = ''a.html'', errored = True,
                warnings = [\<lparr> line = 1, column = 1, rule = ''no-empty-tag'',
                              severity = Str ''error'', text' = ''m'', code = Str ''001'' \<rparr>],
                deprecations = [], invalidOptionWarnings = [], ignored = False \<rparr>] \<rparr>]"
     "[(''failAfterError'', Bool True), (''debug'', Bool False), (''errorLevel'', Obj [])]"]
   deciding_threshold [of
     "[\<lparr> results = [\<lparr> source = ''a.html'', errored = True,
                warnings = [\<lparr> line = 1, column = 1, rule = ''no-empty-tag'',
                              severity = Str ''warning'', text' = ''m'', code = Str ''001'' \<rparr>],
                deprecations = [], invalidOptionWarnings = [], ignored = False \<rparr>] \<rparr>]"
     "[(''failAfterError'', Bool True), (''debug'', Bool False), (''errorLevel'', Obj [])]"]
   deciding_threshold [of
     "[\<lparr> results = [\<lparr> source = ''a.html'', errored = True,
                warnings = [\<lparr> line = 1, column = 1, rule = ''no-empty-tag'',
                              severity = Str ''error'', text' = ''m'', code = Str ''001'' \<rparr>],
                deprecations = [], invalidOptionWarnings = [], ignored = False \<rparr>] \<rparr>]"
     "[(''failAfterError'', Bool False), (''debug'', Bool False), (''errorLevel'', Obj [])]"]
  by (simp add: isErrorSeverity_def field_def showNat.simps)

text \<open>
  When the reporters succeed, or fail with an error that has a message, \<open>onStreamEnd\<close> on
  recorded lint results calls the completion callback of the stream exactly once, as the last
  thing it does, and no exception is left uncaught. After a failure \<open>e\<close> the only error
  emitted is \<open>e\<close>, with \<open>showStack\<close> equal to \<open>Boolean(debug)\<close>, and the Deciding step is
  skipped; otherwise the errors emitted are those of the Deciding step.
\<close>

lemma onStreamEnd_with_message:
  assumes "\<forall>res\<in>set lintPromiseList. results res \<noteq> []"
    and "\<forall>e. snd (passLintResultsThroughReporters reporters lintPromiseList) = Some e
           \<longrightarrow> hasMessage e"
  shows "\<exists>evs. onStreamEnd reporters pluginOptions lintPromiseList = (evs @ [StreamDone], None)
           \<and> StreamDone \<notin> set evs
           \<and> (case snd (passLintResultsThroughReporters reporters lintPromiseList) of
                Some e \<Rightarrow>
                  emitted evs = [PluginError ''gulp-htmlcs'' (Wrapped e)
                                   (Some (truthy (field pluginOptions ''debug'')))]
              | None \<Rightarrow>
                  (\<exists>d. deciding pluginOptions lintPromiseList = Inr (d @ [StreamDone])
                       \<and> emitted evs = emitted d))"
proof -
  obtain n where n: "errorCount lintPromiseList 0 = Inr n"
    using errorCount_total [OF assms(1)] by blast
  obtain evs0 res where p: "passLintResultsThroughReporters reporters lintPromiseList = (evs0, res)"
    by (cases "passLintResultsThroughReporters reporters lintPromiseList")
  have no: "StreamDone \<notin> set evs0"
    using pass_no_StreamDone [of reporters lintPromiseList] p by simp
  have em: "emitted evs0 = []"
    using emitted_pass [of reporters lintPromiseList] p by simp
  show ?thesis
  proof (cases res)
    case None
    let ?d = "if truthy (field pluginOptions ''failAfterError'') \<and> 0 < n then
                  [Emit (PluginError pluginName
                           (Text (''Failed with '' @ showNat n @ '' ''
                                  @ (if n = 1 then ''error'' else ''errors'')))
                           None)]
                else []"
    have d: "deciding pluginOptions lintPromiseList = Inr (?d @ [StreamDone])"
      using n by (simp add: deciding_def)
    have "onStreamEnd reporters pluginOptions lintPromiseList = ((evs0 @ ?d) @ [StreamDone], None)"
      using p None d by (simp add: onStreamEnd_def)
    moreover have "StreamDone \<notin> set (evs0 @ ?d)" using no by simp
    moreover have "emitted (evs0 @ ?d) = emitted ?d" using em by (simp add: emitted_append)
    ultimately show ?thesis using p None d by (intro exI [of _ "evs0 @ ?d"]) auto
  next
    case (Some e)
    then have msg: "hasMessage e" using assms(2) p by simp
    let ?w = "Emit (PluginError pluginName (Wrapped e)
                              (Some (truthy (field pluginOptions ''debug''))))"
    have "onStreamEnd reporters pluginOptions lintPromiseList = ((evs0 @ [?w]) @ [StreamDone], None)"
      using p Some msg by (simp add: onStreamEnd_def newPluginError_def pluginName_def)
    moreover have "StreamDone \<notin> set (evs0 @ [?w])" using no by simp
    moreover have "emitted (evs0 @ [?w]) = [PluginError ''gulp-htmlcs'' (Wrapped e)
                                   (Some (truthy (field pluginOptions ''debug'')))]"
      using em by (simp add: emitted_append pluginName_def)
    ultimately show ?thesis using p Some by (intro exI [of _ "evs0 @ [?w]"]) simp
  qed
qed

text \<open>
  Claim C8 fails on the code. The reporter's promise is rejected with an error that has no
  message (\<open>new Error()\<close>, or a rejection with \<open>undefined\<close>). The handler of \<open>catch\<close> makes the
  \<open>PluginError\<close> first, and its constructor throws \<open>Missing error message\<close> inside
  \<open>process.nextTick\<close>: the reporter has been called, nothing is emitted, the exception is left
  uncaught and the completion callback of the stream is never called.
\<close>

theorem onStreamEnd_error_without_message:
  "onStreamEnd [\<lambda>ws. Rejects 0 (Failure '''')]
     [(''failAfterError'', Bool True), (''debug'', Bool False), (''errorLevel'', Obj [])]
     [\<lparr> results = [\<lparr> source = ''a.html'', errored = True,
                warnings = [\<lparr> line = 1, column = 1, rule = ''no-empty-tag'',
                              severity = Str ''error'', text' = ''m'', code = Str ''001'' \<rparr>],
                deprecations = [], invalidOptionWarnings = [], ignored = False \<rparr>] \<rparr>]
   = ([Report 0 [\<lparr> source = ''a.html'', errored = True,
                warnings = [\<lparr> line = 1, column = 1, rule = ''no-empty-tag'',
                              severity = Str ''error'', text' = ''m'', code = Str ''001'' \<rparr>],
                deprecations = [], invalidOptionWarnings = [], ignored = False \<rparr>]],
      Some (Failure ''Missing error message''))"
  by (simp add: onStreamEnd_def passLintResultsThroughReporters_def newPluginError_def
      pluginName_def Let_def)

section \<open>Properties of the whole stream\<close>

lemma chooseHint_events:
  "chooseHint X po = Inr (evs, h) \<Longrightarrow> reported evs = [] \<and> StreamDone \<notin> set evs"
  by (auto simp: chooseHint_def configError_def split: sum.splits if_splits)

lemma reported_append: "reported (xs @ ys) = reported xs @ reported ys"
  by (induction xs rule: reported.induct) simp_all

lemma reported_reports: "reported (map (\<lambda>j. Report j ws) js) = map (\<lambda>j. (j, ws)) js"
  by (induction js) simp_all

lemma onFile_Obj:
  assumes "field po ''errorLevel'' = Obj el"
    and "onFile X po l f = Inr (evs, l1)"
  shows "reported evs = [] \<and> StreamDone \<notin> set evs
       \<and> (\<exists>rs. l1 = l @ rs
             \<and> (\<forall>res\<in>set rs. length (results res) = 1)
             \<and> map source (concat (map results rs)) = map path (filter isBuffer [f]))"
proof (cases "isBuffer f")
  case False
  then show ?thesis
    using assms(2) by (auto simp: onFile_def isBuffer_def split: if_splits)
next
  case True
  obtain evs0 h where ch: "chooseHint X po = Inr (evs0, h)"
    using assms(2) True
    by (cases "chooseHint X po") (auto simp: onFile_def isBuffer_def)
  have evs0: "reported evs0 = []" "StreamDone \<notin> set evs0"
    using chooseHint_events [OF ch] by simp_all
  let ?code = "case contents f of BufferContents s \<Rightarrow> s | _ \<Rightarrow> []"
  obtain ws where res: "formatResult (Obj el) (h ?code) (path f) =
          Inr \<lparr> results = [\<lparr> source = path f,
                              errored = (\<exists>item\<in>set (h ?code). type item = ''ERROR''),
                              warnings = ws, deprecations = [], invalidOptionWarnings = [],
                              ignored = False \<rparr>] \<rparr>"
    using formatResult_Obj [of el "h ?code" "path f"] by blast
  have "onFile X po l f = Inr (evs0 @ [FileDone (Some f)], l @ [\<lparr> results = [\<lparr> source = path f,
                              errored = (\<exists>item\<in>set (h ?code). type item = ''ERROR''),
                              warnings = ws, deprecations = [], invalidOptionWarnings = [],
                              ignored = False \<rparr>] \<rparr>])"
    using True assms(1) ch res by (simp add: onFile_def isBuffer_def)
  then have evs: "evs = evs0 @ [FileDone (Some f)]"
    and l1: "l1 = l @ [\<lparr> results = [\<lparr> source = path f,
                              errored = (\<exists>item\<in>set (h ?code). type item = ''ERROR''),
                              warnings = ws, deprecations = [], invalidOptionWarnings = [],
                              ignored = False \<rparr>] \<rparr>]"
    using assms(2) by simp_all
  have "reported evs = []" "StreamDone \<notin> set evs"
    using evs0 evs by (simp_all add: reported_append)
  then show ?thesis
    using True l1 by fastforce
qed

lemma onFile_Inl:
  assumes "onFile X po l f = Inl (evs, e)"
  shows "reported evs = [] \<and> StreamDone \<notin> set evs"
proof (cases "chooseHint X po")
  case (Inl x)
  then show ?thesis
    using assms by (auto simp: onFile_def split: if_splits)
next
  case (Inr p)
  obtain evs0 h where p: "p = (evs0, h)" by (cases p)
  have "reported evs0 = [] \<and> StreamDone \<notin> set evs0"
    using chooseHint_events [of X po evs0 h] Inr p by simp
  then show ?thesis
    using assms Inr p by (auto simp: onFile_def split: if_splits sum.splits)
qed

lemma transformAll_Obj:
  assumes "field po ''errorLevel'' = Obj el"
  shows "reported (fst (transformAll X po l fs)) = []
       \<and> StreamDone \<notin> set (fst (transformAll X po l fs))
       \<and> (\<forall>l1. snd (transformAll X po l fs) = Inr l1 \<longrightarrow>
             (\<exists>rs. l1 = l @ rs
                \<and> (\<forall>res\<in>set rs. length (results res) = 1)
                \<and> map source (concat (map results rs)) = map path (filter isBuffer fs)))"
proof (induction fs arbitrary: l)
  case Nil
  then show ?case by simp
next
  case (Cons f fs)
  show ?case
  proof (cases "onFile X po l f")
    case (Inl q)
    obtain evs e where q: "q = (evs, e)" by (cases q)
    have "reported evs = [] \<and> StreamDone \<notin> set evs"
      using onFile_Inl [of X po l f evs e] Inl q by simp
    then show ?thesis using Inl q by simp
  next
    case (Inr p)
    obtain evs l1 where p: "p = (evs, l1)" by (cases p)
    have a: "reported evs = []" "StreamDone \<notin> set evs"
      and "\<exists>rs. l1 = l @ rs
             \<and> (\<forall>res\<in>set rs. length (results res) = 1)
             \<and> map source (concat (map results rs)) = map path (filter isBuffer [f])"
      using onFile_Obj [OF assms, of X l f evs l1] Inr p by simp_all
    then obtain rs where l1: "l1 = l @ rs"
      and a2: "\<forall>res\<in>set rs. length (results res) = 1"
      and a3: "map source (concat (map results rs)) = map path (filter isBuffer [f])"
      by blast
    obtain evs1 r where t: "transformAll X po l1 fs = (evs1, r)"
      by (cases "transformAll X po l1 fs")
    have b: "reported evs1 = []" "StreamDone \<notin> set evs1"
      and b2: "\<forall>l2. r = Inr l2 \<longrightarrow>
             (\<exists>rs1. l2 = l1 @ rs1
                \<and> (\<forall>res\<in>set rs1. length (results res) = 1)
                \<and> map source (concat (map results rs1)) = map path (filter isBuffer fs))"
      using Cons.IH [of l1] t by simp_all
    have eq: "transformAll X po l (f # fs) = (evs @ evs1, r)"
      using Inr p t by simp
    have c: "\<exists>rs2. l2 = l @ rs2
                \<and> (\<forall>res\<in>set rs2. length (results res) = 1)
                \<and> map source (concat (map results rs2)) = map path (filter isBuffer (f # fs))"
      if r: "r = Inr l2" for l2
    proof -
      obtain rs1 where "l2 = l1 @ rs1"
        and "\<forall>res\<in>set rs1. length (results res) = 1"
        and "map source (concat (map results rs1)) = map path (filter isBuffer fs)"
        using b2 r by blast
      then have "l2 = l @ (rs @ rs1)"
        and "\<forall>res\<in>set (rs @ rs1). length (results res) = 1"
        and "map source (concat (map results (rs @ rs1))) = map path (filter isBuffer (f # fs))"
        using l1 a2 a3 by auto
      then show ?thesis by blast
    qed
    have "reported (evs @ evs1) = []" "StreamDone \<notin> set (evs @ evs1)"
      using a b by (simp_all add: reported_append)
    then show ?thesis
      unfolding eq fst_conv snd_conv using c by blast
  qed
qed

lemma onStreamEnd_shape:
  assumes "\<forall>res\<in>set l. length (results res) = 1"
  shows "\<exists>post r. onStreamEnd reporters po l =
           (map (\<lambda>i. Report i (concat (map results l)))
              [0..<min (length reporters)
                     (Suc (length (takeWhile
                        (\<lambda>rep. \<nexists>e. rep (concat (map results l)) = Throws e) reporters)))]
            @ post, r)
         \<and> reported post = []"
proof -
  let ?ws = "concat (map results l)"
  let ?k = "min (length reporters)
              (Suc (length (takeWhile (\<lambda>rep. \<nexists>e. rep ?ws = Throws e) reporters)))"
  obtain evs0 res where p: "passLintResultsThroughReporters reporters l = (evs0, res)"
    by (cases "passLintResultsThroughReporters reporters l")
  have evs0: "evs0 = map (\<lambda>j. Report j ?ws) [0..<?k]"
    using fst_pass [of reporters l] p invokeReporters_events [of reporters 0 ?ws] by simp
  have "\<exists>post r. onStreamEnd reporters po l = (evs0 @ post, r) \<and> reported post = []"
  proof (cases res)
    case None
    have "\<exists>d. deciding po l = Inr d \<and> reported d = []"
      using errorCount_singletons [OF assms, of 0] by (simp add: deciding_def)
    then show ?thesis using p None by (auto simp: onStreamEnd_def)
  next
    case (Some e)
    show ?thesis
    proof (cases "newPluginError pluginName (Wrapped e) (Some (truthy (field po ''debug'')))")
      case (Inl x)
      then have "onStreamEnd reporters po l = (evs0 @ [], Some x)"
        using p Some by (simp add: onStreamEnd_def)
      then show ?thesis by (intro exI [of _ "[]"]) simp
    next
      case (Inr pe)
      then have "onStreamEnd reporters po l = (evs0 @ [Emit pe, StreamDone], None)"
        using p Some by (simp add: onStreamEnd_def)
      then show ?thesis by (intro exI [of _ "[Emit pe, StreamDone]"]) simp
    qed
  qed
  then show ?thesis unfolding evs0 .
qed

text \<open>
  Claim C4, as the code has it. \<open>errorLevel\<close> is a mapping. When an exception leaves \<open>onFile\<close>
  the run ends there and no reporter is called. Otherwise the events of the run are those of
  all the files, then the calls of the reporters \<open>0\<close> to \<open>k - 1\<close>, in this order and once each,
  then the rest, in which no reporter is called. Here \<open>k\<close> is one more than the number of
  reporters before the first that throws, and the number of all reporters when none throws:
  a reporter that throws ends the calls, and the reporters after it are not called. Every
  call gets the same argument: the file results of the recorded lint results in the order of
  arrival, as many as there are files with buffered contents, the sources being the paths of
  these files.
\<close>

theorem runStream_reporters:
  assumes "field pluginOptions ''errorLevel'' = Obj el"
  shows "case transformAll X pluginOptions [] fs of
           (pre, Inl e) \<Rightarrow>
             runStream X reporters pluginOptions fs = (pre, Some e) \<and> reported pre = []
         | (pre, Inr l) \<Rightarrow>
             (\<exists>post r.
                runStream X reporters pluginOptions fs =
                  (pre @ map (\<lambda>i. Report i (concat (map results l)))
                           [0..<min (length reporters)
                                  (Suc (length (takeWhile
                                     (\<lambda>rep. \<nexists>e. rep (concat (map results l)) = Throws e)
                                     reporters)))]
                       @ post, r)
                \<and> reported post = [])
             \<and> reported pre = []
             \<and> length (concat (map results l)) = length (filter isBuffer fs)
             \<and> map source (concat (map results l)) = map path (filter isBuffer fs)"
proof -
  obtain pre r0 where t: "transformAll X pluginOptions [] fs = (pre, r0)"
    by (cases "transformAll X pluginOptions [] fs")
  have pre: "reported pre = []"
    and inv: "\<forall>l1. r0 = Inr l1 \<longrightarrow>
             (\<exists>rs. l1 = [] @ rs
                \<and> (\<forall>res\<in>set rs. length (results res) = 1)
                \<and> map source (concat (map results rs)) = map path (filter isBuffer fs))"
    using transformAll_Obj [OF assms, of X "[]" fs] t by simp_all
  show ?thesis
  proof (cases r0)
    case (Inl e)
    then show ?thesis using t pre by (simp add: runStream_def)
  next
    case (Inr l)
    have one: "\<forall>res\<in>set l. length (results res) = 1"
      and src: "map source (concat (map results l)) = map path (filter isBuffer fs)"
      using inv Inr by auto
    let ?ws = "concat (map results l)"
    let ?k = "min (length reporters)
                (Suc (length (takeWhile (\<lambda>rep. \<nexists>e. rep ?ws = Throws e) reporters)))"
    obtain post r where e: "onStreamEnd reporters pluginOptions l =
             (map (\<lambda>i. Report i ?ws) [0..<?k] @ post, r)"
      and post: "reported post = []"
      using onStreamEnd_shape [OF one, of reporters pluginOptions] by blast
    have run: "runStream X reporters pluginOptions fs =
        (pre @ map (\<lambda>i. Report i ?ws) [0..<?k] @ post, r)"
      using t Inr e by (simp add: runStream_def)
    have len: "length ?ws = length (filter isBuffer fs)"
      using arg_cong [OF src, of length] by simp
    have "\<exists>post r. runStream X reporters pluginOptions fs =
        (pre @ map (\<lambda>i. Report i ?ws) [0..<?k] @ post, r) \<and> reported post = []"
      using run post by blast
    then show ?thesis
      using t Inr pre len src by simp
  qed
qed

theorem runStream_reporters_witness:
  "field [(''failAfterError'', Bool False), (''debug'', Bool False), (''errorLevel'', Obj [])] ''errorLevel'' = Obj []
   \<and> runStream \<lparr> readFileSync = (\<lambda>p. Inl (Failure ''ENOENT'')), parse = (\<lambda>t. Inr ()),
                 hint = (\<lambda>c g. [\<lparr> issue.line = 1, column = 1, rule = ''no-empty-tag'',
                                      type = ''ERROR'', message = ''m'', code = Str ''001'' \<rparr>]),
                 reporterFactory = (\<lambda>c po ws. Resolves) \<rparr>
        [\<lambda>ws. Resolves, \<lambda>ws. Rejects 0 (Failure ''disk'')]
        [(''failAfterError'', Bool False), (''debug'', Bool False), (''errorLevel'', Obj [])]
        [\<lparr> path = ''a.html'', contents = BufferContents ''<p></p>'' \<rparr>,
         \<lparr> path = ''b.html'', contents = NoContents \<rparr>,
         \<lparr> path = ''c.html'', contents = StreamContents \<rparr>,
         \<lparr> path = ''d.html'', contents = BufferContents ''<i></i>'' \<rparr>]
     = ([FileDone (Some \<lparr> path = ''a.html'', contents = BufferContents ''<p></p>'' \<rparr>),
         FileDone (Some \<lparr> path = ''b.html'', contents = NoContents \<rparr>),
         Emit (PluginError ''gulp-htmlcs'' (Text ''Streaming is not supported'') None),
         FileDone None,
         FileDone (Some \<lparr> path = ''d.html'', contents = BufferContents ''<i></i>'' \<rparr>),
         Report 0
              [\<lparr> source = ''a.html'', errored = True,
                  warnings = [\<lparr> line = 1, column = 1, rule = ''no-empty-tag'',
                                severity = Str ''error'', text' = ''m'', code = Str ''001'' \<rparr>],
                  deprecations = [], invalidOptionWarnings = [], ignored = False \<rparr>,
               \<lparr> source = ''d.html'', errored = True,
                  warnings = [\<lparr> line = 1, column = 1, rule = ''no-empty-tag'',
                                severity = Str ''error'', text' = ''m'', code = Str ''001'' \<rparr>],
                  deprecations = [], invalidOptionWarnings = [], ignored = False \<rparr>],
         Report 1
              [\<lparr> source = ''a.html'', errored = True,
                  warnings = [\<lparr> line = 1, column = 1, rule = ''no-empty-tag'',
                                severity = Str ''error'', text' = ''m'', code = Str ''001'' \<rparr>],
                  deprecations = [], invalidOptionWarnings = [], ignored = False \<rparr>,
               \<lparr> source = ''d.html'', errored = True,
                  warnings = [\<lparr> line = 1, column = 1, rule = ''no-empty-tag'',
                                severity = Str ''error'', text' = ''m'', code = Str ''001'' \<rparr>],
                  deprecations = [], invalidOptionWarnings = [], ignored = False \<rparr>],
         Emit (PluginError ''gulp-htmlcs'' (Wrapped (Failure ''disk'')) (Some False)),
         StreamDone], None)"
  using runStream_reporters [where pluginOptions = "[(''failAfterError'', Bool False), (''debug'', Bool False), (''errorLevel'', Obj [])]"
        and el = "[]"
        and X = "\<lparr> readFileSync = (\<lambda>p. Inl (Failure ''ENOENT'')), parse = (\<lambda>t. Inr ()),
                 hint = (\<lambda>c g. [\<lparr> issue.line = 1, column = 1, rule = ''no-empty-tag'',
                                      type = ''ERROR'', message = ''m'', code = Str ''001'' \<rparr>]),
                 reporterFactory = (\<lambda>c po ws. Resolves) \<rparr>"
        and fs = "[\<lparr> path = ''a.html'', contents = BufferContents ''<p></p>'' \<rparr>,
         \<lparr> path = ''b.html'', contents = NoContents \<rparr>,
         \<lparr> path = ''c.html'', contents = StreamContents \<rparr>,
         \<lparr> path = ''d.html'', contents = BufferContents ''<i></i>'' \<rparr>]"
        and reporters = "[\<lambda>ws. Resolves, \<lambda>ws. Rejects 0 (Failure ''disk'')]"]
  by (simp add: runStream_def field_def onFile_def isNull_def isStream_def chooseHint_def
        formatResult_def severityOf_def toLowerCase_def lowerChar_def onStreamEnd_def
        passLintResultsThroughReporters_def pluginName_def newPluginError_def inherited_def
        objectPrototype_def Let_def)

text \<open>
  Claim C4 as stated says that every configured reporter is called exactly once in every run.
  Here two reporters are configured and the first throws: the second is never called.
\<close>

theorem runStream_throwing_reporter:
  "runStream \<lparr> readFileSync = (\<lambda>p. Inl (Failure ''ENOENT'')), parse = (\<lambda>t. Inr ()),
               hint = (\<lambda>c g. []), reporterFactory = (\<lambda>c po ws. Resolves) \<rparr>
     [\<lambda>ws. Throws (Failure ''formatter''), \<lambda>ws. Resolves]
     [(''failAfterError'', Bool True), (''debug'', Bool False), (''errorLevel'', Obj [])]
     [\<lparr> path = ''a.html'', contents = BufferContents ''<p></p>'' \<rparr>]
   = ([FileDone (Some \<lparr> path = ''a.html'', contents = BufferContents ''<p></p>'' \<rparr>),
       Report 0 [\<lparr> source = ''a.html'', errored = False, warnings = [],
                    deprecations = [], invalidOptionWarnings = [], ignored = False \<rparr>],
       Emit (PluginError ''gulp-htmlcs'' (Wrapped (Failure ''formatter'')) (Some False)),
       StreamDone], None)"
  by (simp add: runStream_def onFile_def isNull_def isStream_def chooseHint_def field_def
        formatResult_def onStreamEnd_def passLintResultsThroughReporters_def pluginName_def
        newPluginError_def Let_def)

section \<open>The decision and the severities after the overrides\<close>

lemma formatResult_count:
  assumes "formatResult (Obj el) recs src = Inr res"
  shows "\<exists>r. results res = [r]
           \<and> errored r = (\<exists>item\<in>set recs. type item = ''ERROR'')
           \<and> length (filter isErrorSeverity (warnings r)) =
               length (filter (\<lambda>item. severityOf (Obj el) item = Inr (Str ''error'')) recs)"
proof -
  obtain ws where r: "formatResult (Obj el) recs src =
          Inr \<lparr> results = [\<lparr> source = src,
                              errored = (\<exists>item\<in>set recs. type item = ''ERROR''),
                              warnings = ws, deprecations = [], invalidOptionWarnings = [],
                              ignored = False \<rparr>] \<rparr>"
    and sev: "map Inr (map severity ws) = map (severityOf (Obj el)) recs"
    using formatResult_Obj [of el recs src] by blast
  have "length (filter isErrorSeverity ws) =
        length (filter (\<lambda>x. x = Inr (Str ''error''))
                  (map (Inr :: jsval \<Rightarrow> js_error + jsval) (map severity ws)))"
    by (simp add: filter_map comp_def isErrorSeverity_def [abs_def])
  also have "\<dots> = length (filter (\<lambda>item. severityOf (Obj el) item = Inr (Str ''error'')) recs)"
    unfolding sev by (simp add: filter_map comp_def)
  finally show ?thesis using r assms by auto
qed

lemma formatResults_count:
  assumes "list_all2 (\<lambda>p res. formatResult (Obj el) (fst p) (snd p) = Inr res) rs l"
  shows "(\<forall>res\<in>set l. length (results res) = 1)
      \<and> length (filter isErrorSeverity (concat (map warnings (concat (map results l))))) =
          length (filter (\<lambda>item. severityOf (Obj el) item = Inr (Str ''error''))
                    (concat (map fst rs)))"
  using assms
proof (induction rule: list_all2_induct)
  case Nil
  then show ?case by simp
next
  case (Cons p ps res ress)
  obtain r where "results res = [r]"
    and "length (filter isErrorSeverity (warnings r)) =
          length (filter (\<lambda>item. severityOf (Obj el) item = Inr (Str ''error'')) (fst p))"
    using formatResult_count [OF Cons.hyps(1)] by blast
  then show ?case using Cons.IH by simp
qed

lemma severityOf_downgraded:
  assumes "map_of el (issue.rule item) = Some (Obj ps)" and "field ps ''severity'' \<noteq> Str ''error''"
  shows "severityOf (Obj el) item \<noteq> Inr (Str ''error'')"
  using assms by (auto simp: severityOf_Obj field_def Let_def split: option.splits)

lemma severityOf_upgraded:
  assumes "map_of el (issue.rule item) = Some (Obj ps)"
    and "map_of ps ''severity'' = Some (Str ''error'')"
  shows "severityOf (Obj el) item = Inr (Str ''error'')"
  using assms by (simp add: severityOf_Obj Let_def)

text \<open>
  Claim C10, as the code has it. The lint results are those of \<open>formatResult\<close> on the records
  of the files. The file result of every file has \<open>errored\<close> true exactly when the file has a
  record of type \<open>'ERROR'\<close>. When every record of type \<open>'ERROR'\<close> has its rule in \<open>errorLevel\<close>
  with a severity other than \<open>'error'\<close> and no other record gets the severity \<open>'error'\<close>,
  the error count is zero and the Deciding step emits nothing, whatever \<open>failAfterError\<close> is.
  When \<open>failAfterError\<close> is truthy and some record of type \<open>'WARNING'\<close> has its rule
  overridden to the severity \<open>'error'\<close>, the Deciding step emits its error.
\<close>

theorem decision_by_severity:
  assumes "list_all2 (\<lambda>p res. formatResult (Obj el) (fst p) (snd p) = Inr res) rs lintResults"
  shows "list_all2 (\<lambda>p res. \<exists>r. results res = [r]
                       \<and> errored r = (\<exists>item\<in>set (fst p). type item = ''ERROR'')) rs lintResults
       \<and> ((\<forall>p\<in>set rs. \<forall>item\<in>set (fst p).
              if type item = ''ERROR''
              then \<exists>ps. map_of el (issue.rule item) = Some (Obj ps)
                        \<and> field ps ''severity'' \<noteq> Str ''error''
              else severityOf (Obj el) item \<noteq> Inr (Str ''error''))
            \<longrightarrow> deciding pluginOptions lintResults = Inr [StreamDone])
       \<and> (truthy (field pluginOptions ''failAfterError'')
            \<and> (\<exists>p\<in>set rs. \<exists>item\<in>set (fst p). \<exists>ps. type item = ''WARNING''
                   \<and> map_of el (issue.rule item) = Some (Obj ps)
                   \<and> map_of ps ''severity'' = Some (Str ''error''))
            \<longrightarrow> (\<exists>msg. deciding pluginOptions lintResults =
                         Inr [Emit (PluginError ''gulp-htmlcs'' (Text msg) None), StreamDone]))"
proof -
  let ?n = "length (filter (\<lambda>item. severityOf (Obj el) item = Inr (Str ''error''))
                    (concat (map fst rs)))"
  have one: "\<forall>res\<in>set lintResults. length (results res) = 1"
    and cnt: "length (filter isErrorSeverity
                (concat (map warnings (concat (map results lintResults))))) = ?n"
    using formatResults_count [OF assms] by simp_all
  have ec: "errorCount lintResults 0 = Inr ?n"
    using errorCount_singletons [OF one, of 0] cnt by simp
  have A: "list_all2 (\<lambda>p res. \<exists>r. results res = [r]
                       \<and> errored r = (\<exists>item\<in>set (fst p). type item = ''ERROR'')) rs lintResults"
    using assms
  proof (rule list_all2_mono)
    fix p res
    assume "formatResult (Obj el) (fst p) (snd p) = Inr res"
    from formatResult_count [OF this]
    show "\<exists>r. results res = [r] \<and> errored r = (\<exists>item\<in>set (fst p). type item = ''ERROR'')"
      by blast
  qed
  have B: "deciding pluginOptions lintResults = Inr [StreamDone]"
    if h: "\<forall>p\<in>set rs. \<forall>item\<in>set (fst p).
              if type item = ''ERROR''
              then \<exists>ps. map_of el (issue.rule item) = Some (Obj ps)
                        \<and> field ps ''severity'' \<noteq> Str ''error''
              else severityOf (Obj el) item \<noteq> Inr (Str ''error'')"
  proof -
    have "severityOf (Obj el) item \<noteq> Inr (Str ''error'')"
      if pin: "p \<in> set rs" and iin: "item \<in> set (fst p)" for p item
    proof (cases "type item = ''ERROR''")
      case True
      have "\<exists>ps. map_of el (issue.rule item) = Some (Obj ps)
                        \<and> field ps ''severity'' \<noteq> Str ''error''"
        using h pin iin True by fastforce
      then obtain ps where "map_of el (issue.rule item) = Some (Obj ps)"
        and "field ps ''severity'' \<noteq> Str ''error''"
        by blast
      then show ?thesis by (rule severityOf_downgraded)
    next
      case False
      then show ?thesis using h pin iin by fastforce
    qed
    then have "filter (\<lambda>item. severityOf (Obj el) item = Inr (Str ''error''))
                    (concat (map fst rs)) = []"
      by (auto simp: filter_empty_conv)
    then have "?n = 0" by simp
    then show ?thesis using ec by (simp add: deciding_def)
  qed
  have C: "\<exists>msg. deciding pluginOptions lintResults =
                         Inr [Emit (PluginError ''gulp-htmlcs'' (Text msg) None), StreamDone]"
    if t: "truthy (field pluginOptions ''failAfterError'')"
      and w: "\<exists>p\<in>set rs. \<exists>item\<in>set (fst p). \<exists>ps. type item = ''WARNING''
                   \<and> map_of el (issue.rule item) = Some (Obj ps)
                   \<and> map_of ps ''severity'' = Some (Str ''error'')"
  proof -
    obtain p item ps where "p \<in> set rs" "item \<in> set (fst p)"
      and "map_of el (issue.rule item) = Some (Obj ps)"
      and "map_of ps ''severity'' = Some (Str ''error'')"
      using w by blast
    then have "item \<in> set (concat (map fst rs))"
      and "severityOf (Obj el) item = Inr (Str ''error'')"
      by (auto intro: severityOf_upgraded)
    then have "filter (\<lambda>item. severityOf (Obj el) item = Inr (Str ''error''))
                    (concat (map fst rs)) \<noteq> []"
      unfolding filter_empty_conv by blast
    then have "0 < ?n" by simp
    then show ?thesis using ec t by (simp add: deciding_def pluginName_def)
  qed
  show ?thesis using A B C by blast
qed

theorem decision_by_severity_witness:
  "formatResult (Obj [(''img-alt'', Obj [(''severity'', Str ''warning'')])])
     [\<lparr> issue.line = 1, column = 1, rule = ''img-alt'', type = ''ERROR'', message = ''m'', code = Str ''001'' \<rparr>] ''a.html''
   = Inr \<lparr> results = [\<lparr> source = ''a.html'', errored = True,
        warnings = [\<lparr> line = 1, column = 1, rule = ''img-alt'', severity = Str ''warning'', text' = ''m'', code = Str ''001'' \<rparr>],
        deprecations = [], invalidOptionWarnings = [], ignored = False \<rparr>] \<rparr>
   \<and> deciding [(''failAfterError'', Bool True), (''debug'', Bool False), (''errorLevel'', Obj [(''img-alt'', Obj [(''severity'', Str ''warning'')])])]
     [\<lparr> results = [\<lparr> source = ''a.html'', errored = True,
        warnings = [\<lparr> line = 1, column = 1, rule = ''img-alt'', severity = Str ''warning'', text' = ''m'', code = Str ''001'' \<rparr>],
        deprecations = [], invalidOptionWarnings = [], ignored = False \<rparr>] \<rparr>]
   = Inr [StreamDone]
   \<and> formatResult (Obj [(''no-empty-tag'', Obj [(''severity'', Str ''error'')])])
     [\<lparr> issue.line = 1, column = 1, rule = ''no-empty-tag'', type = ''WARNING'', message = ''m'', code = Str ''002'' \<rparr>] ''b.html''
   = Inr \<lparr> results = [\<lparr> source = ''b.html'', errored = False,
        warnings = [\<lparr> line = 1, column = 1, rule = ''no-empty-tag'', severity = Str ''error'', text' = ''m'', code = Str ''002'' \<rparr>],
        deprecations = [], invalidOptionWarnings = [], ignored = False \<rparr>] \<rparr>
   \<and> deciding [(''failAfterError'', Bool True), (''debug'', Bool False), (''errorLevel'', Obj [(''no-empty-tag'', Obj [(''severity'', Str ''error'')])])]
     [\<lparr> results = [\<lparr> source = ''b.html'', errored = False,
        warnings = [\<lparr> line = 1, column = 1, rule = ''no-empty-tag'', severity = Str ''error'', text' = ''m'', code = Str ''002'' \<rparr>],
        deprecations = [], invalidOptionWarnings = [], ignored = False \<rparr>] \<rparr>]
   = Inr [Emit (PluginError ''gulp-htmlcs'' (Text ''Failed with 1 error'') None), StreamDone]"
  using decision_by_severity [of "[(''img-alt'', Obj [(''severity'', Str ''warning'')])]"
      "[([\<lparr> issue.line = 1, column = 1, rule = ''img-alt'', type = ''ERROR'', message = ''m'', code = Str ''001'' \<rparr>], ''a.html'')]"
      "[\<lparr> results = [\<lparr> source = ''a.html'', errored = True,
        warnings = [\<lparr> line = 1, column = 1, rule = ''img-alt'', severity = Str ''warning'', text' = ''m'', code = Str ''001'' \<rparr>],
        deprecations = [], invalidOptionWarnings = [], ignored = False \<rparr>] \<rparr>]"
      "[(''failAfterError'', Bool True), (''debug'', Bool False), (''errorLevel'', Obj [(''img-alt'', Obj [(''severity'', Str ''warning'')])])]"]
    decision_by_severity [of "[(''no-empty-tag'', Obj [(''severity'', Str ''error'')])]"
      "[([\<lparr> issue.line = 1, column = 1, rule = ''no-empty-tag'', type = ''WARNING'', message = ''m'', code = Str ''002'' \<rparr>], ''b.html'')]"
      "[\<lparr> results = [\<lparr> source = ''b.html'', errored = False,
        warnings = [\<lparr> line = 1, column = 1, rule = ''no-empty-tag'', severity = Str ''error'', text' = ''m'', code = Str ''002'' \<rparr>],
        deprecations = [], invalidOptionWarnings = [], ignored = False \<rparr>] \<rparr>]"
      "[(''failAfterError'', Bool True), (''debug'', Bool False), (''errorLevel'', Obj [(''no-empty-tag'', Obj [(''severity'', Str ''error'')])])]"]
  by (simp add: formatResult_def severityOf_def toLowerCase_def lowerChar_def deciding_def
        isErrorSeverity_def field_def pluginName_def showNat.simps inherited_def
        objectPrototype_def)

text \<open>
  Claim C10 as stated asks only that the records of type \<open>'ERROR'\<close> be overridden to another
  severity. Here the one such record is overridden to \<open>'warning'\<close>, and a record of type
  \<open>'WARNING'\<close> of the same file is overridden to \<open>'error'\<close>: \<open>errored\<close> is true, the count
  is one and the error is emitted.
\<close>

theorem decision_mixed_run:
  "formatResult (Obj [(''img-alt'', Obj [(''severity'', Str ''warning'')]), (''no-empty-tag'', Obj [(''severity'', Str ''error'')])])
     [\<lparr> issue.line = 1, column = 1, rule = ''img-alt'', type = ''ERROR'', message = ''m'', code = Str ''001'' \<rparr>,
      \<lparr> issue.line = 2, column = 1, rule = ''no-empty-tag'', type = ''WARNING'', message = ''m'', code = Str ''002'' \<rparr>] ''a.html''
   = Inr \<lparr> results = [\<lparr> source = ''a.html'', errored = True,
        warnings = [\<lparr> line = 1, column = 1, rule = ''img-alt'', severity = Str ''warning'', text' = ''m'', code = Str ''001'' \<rparr>,
                    \<lparr> line = 2, column = 1, rule = ''no-empty-tag'', severity = Str ''error'', text' = ''m'', code = Str ''002'' \<rparr>],
        deprecations = [], invalidOptionWarnings = [], ignored = False \<rparr>] \<rparr>
   \<and> deciding [(''failAfterError'', Bool True), (''debug'', Bool False), (''errorLevel'', Obj [(''img-alt'', Obj [(''severity'', Str ''warning'')]), (''no-empty-tag'', Obj [(''severity'', Str ''error'')])])]
     [\<lparr> results = [\<lparr> source = ''a.html'', errored = True,
        warnings = [\<lparr> line = 1, column = 1, rule = ''img-alt'', severity = Str ''warning'', text' = ''m'', code = Str ''001'' \<rparr>,
                    \<lparr> line = 2, column = 1, rule = ''no-empty-tag'', severity = Str ''error'', text' = ''m'', code = Str ''002'' \<rparr>],
        deprecations = [], invalidOptionWarnings = [], ignored = False \<rparr>] \<rparr>]
   = Inr [Emit (PluginError ''gulp-htmlcs'' (Text ''Failed with 1 error'') None), StreamDone]"
  by (simp add: formatResult_def severityOf_def toLowerCase_def lowerChar_def deciding_def
        isErrorSeverity_def field_def pluginName_def showNat.simps inherited_def
        objectPrototype_def)

section \<open>Properties of the option resolver\<close>

lemma map_of_setProp: "map_of (setProp t k v) = (map_of t)(k \<mapsto> v)"
  by (induction t k v rule: setProp.induct) (auto simp: fun_eq_iff)

lemma setProp_fresh: "k \<notin> fst ` set t \<Longrightarrow> setProp t k v = t @ [(k, v)]"
  by (induction t k v rule: setProp.induct) auto

lemma keys_setProp: "fst ` set (setProp t k v) = insert k (fst ` set t)"
  by (induction t k v rule: setProp.induct) auto

lemma distinct_setProp: "distinct (map fst t) \<Longrightarrow> distinct (map fst (setProp t k v))"
proof (induction t k v rule: setProp.induct)
  case (1 k v)
  then show ?case by simp
next
  case (2 k1 v1 ps k v)
  then show ?case using keys_setProp [of ps k v] by auto
qed

lemma distinct_extendProps: "distinct (map fst t) \<Longrightarrow> distinct (map fst (extendProps t s))"
proof (induction s arbitrary: t)
  case Nil
  then show ?case by simp
next
  case (Cons p s)
  obtain k v where p: "p = (k, v)" by (cases p)
  show ?case unfolding p extendProps.simps
    by (rule Cons.IH) (rule distinct_setProp [OF Cons.prems])
qed

lemma extendProps_append:
  assumes "\<forall>p\<in>set s. \<forall>vs. snd p = Obj vs \<longrightarrow> extendProps [] vs = vs"
    and "distinct (map fst s)"
    and "fst ` set t \<inter> fst ` set s = {}"
  shows "extendProps t s = t @ s"
  using assms
proof (induction s arbitrary: t)
  case Nil
  then show ?case by simp
next
  case (Cons p s)
  obtain k v where p: "p = (k, v)" by (cases p)
  have fresh: "k \<notin> fst ` set t"
    using Cons.prems(3) p by auto
  then have none: "map_of t k = None"
    by (simp add: map_of_eq_None_iff)
  have val: "(case v of
             Obj vs \<Rightarrow>
               (case map_of t k of
                  Some (Obj ts) \<Rightarrow> Obj (extendProps ts vs)
                | _ \<Rightarrow> Obj (extendProps [] vs))
           | _ \<Rightarrow> v) = v"
    using Cons.prems(1) p none by (cases v) simp_all
  have kr: "k \<notin> fst ` set s"
    using Cons.prems(2) p by auto
  have disj: "fst ` set (t @ [(k, v)]) \<inter> fst ` set s = {}"
    using Cons.prems(3) kr by auto
  have "extendProps t (p # s) = extendProps (t @ [(k, v)]) s"
    using val fresh by (simp add: p setProp_fresh)
  also have "\<dots> = (t @ [(k, v)]) @ s"
    using Cons.prems(1,2) disj by (intro Cons.IH) simp_all
  finally show ?case by (simp add: p)
qed

lemma extendProps_copy: "wf v \<Longrightarrow> v = Obj vs \<Longrightarrow> extendProps [] vs = vs"
proof (induction v arbitrary: vs)
  case (Obj ps)
  have "\<forall>p\<in>set ps. \<forall>us. snd p = Obj us \<longrightarrow> extendProps [] us = us"
  proof (intro ballI allI impI)
    fix p us
    assume pin: "p \<in> set ps" and us: "snd p = Obj us"
    have "wf (snd p)"
      using Obj.prems(1) pin by (simp add: list_all_iff)
    moreover have "snd p \<in> Basic_BNFs.snds p"
      by (cases p) simp
    ultimately show "extendProps [] us = us"
      using Obj.IH [OF pin _ _ us] by blast
  qed
  moreover have "distinct (map fst ps)"
    using Obj.prems(1) by simp
  ultimately have "extendProps [] ps = [] @ ps"
    by (intro extendProps_append) simp_all
  then show ?case using Obj.prems(2) by simp
qed simp_all

lemma map_of_extendProps:
  assumes "distinct (map fst s)"
  shows "map_of (extendProps t s) k =
     (case map_of s k of
        None \<Rightarrow> map_of t k
      | Some v \<Rightarrow>
          Some (case v of
                  Obj vs \<Rightarrow>
                    (case map_of t k of
                       Some (Obj ts) \<Rightarrow> Obj (extendProps ts vs)
                     | _ \<Rightarrow> Obj (extendProps [] vs))
                | _ \<Rightarrow> v))"
  using assms
proof (induction s arbitrary: t)
  case Nil
  then show ?case by simp
next
  case (Cons p s)
  obtain k1 v where p: "p = (k1, v)" by (cases p)
  let ?v1 = "case v of
             Obj vs \<Rightarrow>
               (case map_of t k1 of
                  Some (Obj ts) \<Rightarrow> Obj (extendProps ts vs)
                | _ \<Rightarrow> Obj (extendProps [] vs))
           | _ \<Rightarrow> v"
  have ds: "distinct (map fst s)" and kr: "k1 \<notin> fst ` set s"
    using Cons.prems p by auto
  have none: "map_of s k1 = None"
    using kr by (simp add: map_of_eq_None_iff)
  have step: "extendProps t (p # s) = extendProps (setProp t k1 ?v1) s"
    by (simp add: p)
  have ih: "map_of (extendProps (setProp t k1 ?v1) s) k =
     (case map_of s k of
        None \<Rightarrow> map_of (setProp t k1 ?v1) k
      | Some v \<Rightarrow>
          Some (case v of
                  Obj vs \<Rightarrow>
                    (case map_of (setProp t k1 ?v1) k of
                       Some (Obj ts) \<Rightarrow> Obj (extendProps ts vs)
                     | _ \<Rightarrow> Obj (extendProps [] vs))
                | _ \<Rightarrow> v))"
    using Cons.IH [OF ds] .
  show ?case
  proof (cases "k = k1")
    case True
    show ?thesis
      using ih unfolding step True by (simp add: none p map_of_setProp)
  next
    case False
    then have eq: "map_of (setProp t k1 ?v1) k = map_of t k"
      by (simp add: map_of_setProp)
    show ?thesis
      using False unfolding step ih eq by (simp add: p)
  qed
qed

lemma pluginOptionsOf_Obj:
  assumes "wf (Obj s)"
  shows "map_of (pluginOptionsOf (Obj s)) k =
     (case map_of s k of
        Some v \<Rightarrow> Some v
      | None \<Rightarrow> map_of [(''failAfterError'', Bool True), (''debug'', Bool False),
                          (''errorLevel'', Obj [])] k)"
proof (cases "map_of s k")
  case None
  then show ?thesis
    using assms by (simp add: pluginOptionsOf_def deepExtend_def map_of_extendProps)
next
  case (Some v)
  then have "(k, v) \<in> set s" by (rule map_of_SomeD)
  then have wfv: "wf v" using assms by (auto simp: list_all_iff)
  have copy: "extendProps [] vs = vs" if "v = Obj vs" for vs
    using extendProps_copy [OF wfv that] .
  have "(case v of
                  Obj vs \<Rightarrow>
                    (case map_of [(''failAfterError'', Bool True), (''debug'', Bool False),
                          (''errorLevel'', Obj [])] k of
                       Some (Obj ts) \<Rightarrow> Obj (extendProps ts vs)
                     | _ \<Rightarrow> Obj (extendProps [] vs))
                | _ \<Rightarrow> v) = v"
    using copy by (cases v) auto
  then show ?thesis
    using assms Some by (simp add: pluginOptionsOf_def deepExtend_def map_of_extendProps)
qed

lemma deleteProp_filter:
  "deleteProp (deleteProp (deleteProp (deleteProp (deleteProp ps
       ''files'') ''formatter'') ''reportOutputDir'') ''reporters'') ''debug''
   = filter (\<lambda>p. fst p \<notin> {''files'', ''formatter'', ''reportOutputDir'', ''reporters'',
                               ''debug''}) ps"
  unfolding deleteProp_def filter_filter by (rule filter_cong) auto

text \<open>
  Claim C9. For a caller's options object, the plugin options have the caller's value at
  every key the caller gives and the default (\<open>failAfterError\<close> true, \<open>debug\<close> false,
  \<open>errorLevel\<close> empty) at every other key, and are an object again; the lint options are the
  caller's properties, values and order unchanged, without \<open>files\<close>, \<open>formatter\<close>,
  \<open>reportOutputDir\<close>, \<open>reporters\<close> and \<open>debug\<close>, and nothing else is removed. With no options
  the plugin options are the defaults and the lint options are empty; nothing is thrown.
\<close>

theorem option_resolver:
  assumes "wf (Obj s)"
  shows "(\<forall>k. map_of (pluginOptionsOf (Obj s)) k =
            (case map_of s k of
               Some v \<Rightarrow> Some v
             | None \<Rightarrow> map_of [(''failAfterError'', Bool True), (''debug'', Bool False),
                                 (''errorLevel'', Obj [])] k))
       \<and> distinct (map fst (pluginOptionsOf (Obj s)))
       \<and> lintOptionsOf (Obj s) =
           filter (\<lambda>p. fst p \<notin> {''files'', ''formatter'', ''reportOutputDir'', ''reporters'',
                                      ''debug''}) s
       \<and> pluginOptionsOf Undefined =
           [(''failAfterError'', Bool True), (''debug'', Bool False), (''errorLevel'', Obj [])]
       \<and> lintOptionsOf Undefined = []"
proof -
  have "extendProps [] s = s"
    using extendProps_copy [OF assms] by simp
  then have "lintOptionsOf (Obj s) =
           filter (\<lambda>p. fst p \<notin> {''files'', ''formatter'', ''reportOutputDir'', ''reporters'',
                                      ''debug''}) s"
    by (simp add: lintOptionsOf_def deepExtend_def deleteProp_filter)
  moreover have "distinct (map fst (pluginOptionsOf (Obj s)))"
    unfolding pluginOptionsOf_def deepExtend_def jsval.case
    by (rule distinct_extendProps) simp
  moreover have "pluginOptionsOf Undefined =
           [(''failAfterError'', Bool True), (''debug'', Bool False), (''errorLevel'', Obj [])]"
    by (simp add: pluginOptionsOf_def deepExtend_def)
  moreover have "lintOptionsOf Undefined = []"
    by (simp add: lintOptionsOf_def deepExtend_def deleteProp_def)
  ultimately show ?thesis
    using pluginOptionsOf_Obj [OF assms] by blast
qed

theorem option_resolver_witness:
  "wf (Obj [(''failAfterError'', Bool False),
            (''reporters'', Arr [Obj [(''formatter'', Str ''verbose''), (''console'', Bool True)]]),
            (''errorLevel'', Obj [(''img-alt'', Obj [(''severity'', Str ''error'')])]),
            (''configFile'', Str ''.htmlcsrc''),
            (''debug'', Bool True)])
   \<and> pluginOptionsOf
       (Obj [(''failAfterError'', Bool False),
            (''reporters'', Arr [Obj [(''formatter'', Str ''verbose''), (''console'', Bool True)]]),
            (''errorLevel'', Obj [(''img-alt'', Obj [(''severity'', Str ''error'')])]),
            (''configFile'', Str ''.htmlcsrc''),
            (''debug'', Bool True)])
     = [(''failAfterError'', Bool False), (''debug'', Bool True),
        (''errorLevel'', Obj [(''img-alt'', Obj [(''severity'', Str ''error'')])]),
        (''reporters'', Arr [Obj [(''formatter'', Str ''verbose''), (''console'', Bool True)]]),
        (''configFile'', Str ''.htmlcsrc'')]
   \<and> lintOptionsOf
       (Obj [(''failAfterError'', Bool False),
            (''reporters'', Arr [Obj [(''formatter'', Str ''verbose''), (''console'', Bool True)]]),
            (''errorLevel'', Obj [(''img-alt'', Obj [(''severity'', Str ''error'')])]),
            (''configFile'', Str ''.htmlcsrc''),
            (''debug'', Bool True)])
     = [(''failAfterError'', Bool False),
        (''errorLevel'', Obj [(''img-alt'', Obj [(''severity'', Str ''error'')])]),
        (''configFile'', Str ''.htmlcsrc'')]"
  using option_resolver [of
       "[(''failAfterError'', Bool False),
            (''reporters'', Arr [Obj [(''formatter'', Str ''verbose''), (''console'', Bool True)]]),
            (''errorLevel'', Obj [(''img-alt'', Obj [(''severity'', Str ''error'')])]),
            (''configFile'', Str ''.htmlcsrc''),
            (''debug'', Bool True)]"]
  by (simp add: pluginOptionsOf_def deepExtend_def)

end
